theory Spec2Isabelle
  imports Complex_Main
begin

section \<open>Numbers and time\<close>

text \<open>
  The demo is TypeScript. A JavaScript number is modelled as a \<open>real\<close>: the arithmetic of
  the worker and of the main-thread loop is read as exact arithmetic, and the values
  \<open>NaN\<close> and \<open>Infinity\<close> are not modelled. Counters that the code only increments from 0
  (\<open>frames\<close>, \<open>droppedFrames\<close>) are natural numbers.
\<close>

definition Math_PI :: real where
  "Math_PI = pi"

definition Math_round :: "real \<Rightarrow> int" where
  \<comment> \<open>\<open>Math.round\<close>: the nearest integer, a tie going towards \<open>+\<infinity>\<close>.\<close>
  "Math_round v = \<lfloor>v + 1 / 2\<rfloor>"

definition TARGET_FRAME_TIME :: real where
  "TARGET_FRAME_TIME = 1000 / 60"

definition dampingFactor :: real where
  "dampingFactor = 0.05"

text \<open>
  One call of \<open>animate\<close> reads the clocks four times: \<open>performance.now()\<close> at its start,
  \<open>Date.now()\<close> when an interaction is pending, \<open>performance.now()\<close> after rendering and
  \<open>performance.now()\<close> once more for the statistics. The readings are inputs of the model.
\<close>

record clock =
  frameStart :: real
  Date_now :: real
  frameEnd :: real
  now :: real

section \<open>Data model\<close>

text \<open>
  A cube of the scene: \<open>THREE.Mesh\<close> with its material colour, position, rotation and
  \<open>userData.velocity\<close> (\<open>x, y, z, rx, ry, rz\<close>).
\<close>

record mesh =
  color :: real
  position_x :: real
  position_y :: real
  position_z :: real
  rotation_x :: real
  rotation_y :: real
  rotation_z :: real
  velocity_x :: real
  velocity_y :: real
  velocity_z :: real
  velocity_rx :: real
  velocity_ry :: real
  velocity_rz :: real

datatype light = AmbientLight | DirectionalLight

text \<open>
  \<open>toFixed(2)\<close> returns a string. Below \<open>10^21\<close> it is the decimal expansion with two
  digits after the point; from \<open>10^21\<close> on it is the sign followed by what
  \<open>Number::toString\<close> gives for the magnitude, whose digits are not modelled.
\<close>

datatype js_string = Str string | SignedToString string real

text \<open>The interface \<open>PerformanceStats\<close>, the payload of a \<open>stats\<close> message.\<close>

record PerformanceStats =
  stats_fps :: int
  stats_avgFrameTime :: js_string
  stats_droppedFrames :: nat
  stats_maxDelay :: js_string
  stats_interactionDelay :: js_string

text \<open>
  The performance variables. The worker keeps them as module-level variables, the
  main-thread loop in \<open>perfRef.current\<close>; both have the same fields.
\<close>

record perf =
  lastTime :: real
  frames :: nat
  frameTimes :: "real list"
  droppedFrames :: nat
  maxDelay :: real
  lastInteractionTime :: real
  interactionDelay :: real
  interactionDelays :: "real list"

text \<open>
  \<open>THREE.PerspectiveCamera\<close>, as far as the worker touches it: the operands of
  \<open>aspect = width / height\<close> (kept apart, the quotient is not finite for height 0), the
  position, and the point last passed to \<open>lookAt\<close>.
\<close>

record PerspectiveCamera =
  aspect :: "real \<times> real"
  camera_position_x :: real
  camera_position_y :: real
  camera_position_z :: real
  lookAt :: "(real \<times> real \<times> real) option"

record WebGLRenderer =
  renderer_size :: "real \<times> real"
  pixelRatio :: real

text \<open>
  The worker's module-level state. \<open>scene\<close>, \<open>camera\<close> and \<open>renderer\<close> are undefined until
  the \<open>init\<close> message; the scene's children are its lights followed by the cubes of
  \<open>objects\<close>. \<open>posted\<close> collects the messages sent with \<open>self.postMessage\<close>.
\<close>

record worker = perf +
  scene :: "light list option"
  camera :: "PerspectiveCamera option"
  renderer :: "WebGLRenderer option"
  objects :: "mesh list"
  objectCount :: real
  fps :: int
  cameraRotation_x :: real
  cameraRotation_y :: real
  cameraRotationTarget_x :: real
  cameraRotationTarget_y :: real
  cameraDistance :: real
  cameraDistanceTarget :: real
  isDragging :: bool
  posted :: "PerformanceStats list"

definition initial_worker :: "real \<Rightarrow> worker" where
  \<comment> \<open>The state after the module is loaded, \<open>t0\<close> being \<open>performance.now()\<close> at that time.\<close>
  "initial_worker t0 =
     \<lparr> lastTime = t0, frames = 0, frameTimes = [], droppedFrames = 0, maxDelay = 0,
       lastInteractionTime = 0, interactionDelay = 0, interactionDelays = [],
       scene = None, camera = None, renderer = None, objects = [], objectCount = 100,
       fps = 0, cameraRotation_x = 0, cameraRotation_y = 0,
       cameraRotationTarget_x = 0, cameraRotationTarget_y = 0,
       cameraDistance = 30, cameraDistanceTarget = 30, isDragging = False, posted = [] \<rparr>"

section \<open>Formatting numbers\<close>

definition digit :: "nat \<Rightarrow> char" where
  "digit d = ''0123456789'' ! d"

fun digits :: "nat \<Rightarrow> string" where
  "digits n = (if n < 10 then [digit n] else digits (n div 10) @ [digit (n mod 10)])"

declare digits.simps [simp del]

definition toFixed2 :: "real \<Rightarrow> js_string" where
  \<comment> \<open>\<open>Number.prototype.toFixed\<close> with \<open>fractionDigits = 2\<close>: the sign, then for a
      magnitude below \<open>10^21\<close> the integer \<open>n\<close> nearest to \<open>100 * magnitude\<close> (the
      larger of two), its digits padded to three with zeros, and a point before the
      last two.\<close>
  "toFixed2 v =
     (let s = (if v < 0 then ''-'' else []);
          a = (if v < 0 then - v else v)
      in if a \<ge> 10 ^ 21 then SignedToString s a
         else
           let n = nat \<lfloor>a * 100 + 1 / 2\<rfloor>;
               m = digits n;
               m = (if length m \<le> 2 then replicate (3 - length m) CHR ''0'' @ m else m);
               k = length m
           in Str (s @ take (k - 2) m @ ''.'' @ drop (k - 2) m))"

section \<open>Camera controller\<close>

definition updateCameraPosition :: "worker \<Rightarrow> worker" where
  \<comment> \<open>Called by \<open>init\<close> after the camera is constructed and by \<open>animate\<close>, which \<open>init\<close>
      starts. Without a camera the source would raise after the three damping
      assignments; the model then returns the state at that point.\<close>
  "updateCameraPosition w =
     (let rx = cameraRotation_x w + (cameraRotationTarget_x w - cameraRotation_x w) * dampingFactor;
          ry = cameraRotation_y w + (cameraRotationTarget_y w - cameraRotation_y w) * dampingFactor;
          d = cameraDistance w + (cameraDistanceTarget w - cameraDistance w) * dampingFactor
      in w\<lparr> cameraRotation_x := rx, cameraRotation_y := ry, cameraDistance := d,
            camera := map_option
              (\<lambda>cam. cam\<lparr> camera_position_x := d * sin ry * cos rx,
                           camera_position_y := d * sin rx,
                           camera_position_z := d * cos ry * cos rx,
                           lookAt := Some (0, 0, 0) \<rparr>)
              (camera w) \<rparr>)"

section \<open>Interaction messages\<close>

text \<open>
  The \<open>interaction\<close> message by its \<open>action\<close>: \<open>start\<close> and \<open>zoom\<close> may carry a
  \<open>timestamp\<close>, \<open>rotate\<close> carries \<open>deltaX\<close> and \<open>deltaY\<close>, \<open>zoom\<close> carries \<open>delta\<close>.
  Any other action string is \<open>OtherAction\<close>.
\<close>

datatype interaction =
    Start "real option"
  | Rotate real real
  | End
  | Zoom real "real option"
  | OtherAction

definition truthy :: "real option \<Rightarrow> bool" where
  \<comment> \<open>\<open>if (timestamp)\<close>: an absent timestamp and the number 0 are falsy.\<close>
  "truthy t = (case t of None \<Rightarrow> False | Some v \<Rightarrow> v \<noteq> 0)"

fun handleInteraction :: "interaction \<Rightarrow> worker \<Rightarrow> worker" where
  "handleInteraction (Start timestamp) w =
     (let w1 = w\<lparr> isDragging := True \<rparr>
      in if truthy timestamp then w1\<lparr> lastInteractionTime := the timestamp \<rparr> else w1)"
| "handleInteraction (Rotate deltaX deltaY) w =
     (if isDragging w then
        let ty = cameraRotationTarget_y w - deltaX * 0.005;
            tx = cameraRotationTarget_x w + deltaY * 0.005;
            tx = max (- Math_PI / 2) (min (Math_PI / 2) tx)
        in w\<lparr> cameraRotationTarget_y := ty, cameraRotationTarget_x := tx \<rparr>
      else w)"
| "handleInteraction End w = w\<lparr> isDragging := False \<rparr>"
| "handleInteraction (Zoom delta timestamp) w =
     (let td = cameraDistanceTarget w + delta * 0.05;
          td = max 10 (min 100 td);
          w1 = w\<lparr> cameraDistanceTarget := td \<rparr>
      in if truthy timestamp then w1\<lparr> lastInteractionTime := the timestamp \<rparr> else w1)"
| "handleInteraction OtherAction w = w"

section \<open>Scene builder\<close>

text \<open>
  \<open>Math.random()\<close> is an input: \<open>random k\<close> is the result of the \<open>k\<close>-th call made by
  one run of \<open>createScene\<close>, which makes ten calls for each cube.
\<close>

definition make_cube :: "(nat \<Rightarrow> real) \<Rightarrow> nat \<Rightarrow> mesh" where
  "make_cube random i =
     \<lparr> color = random (10 * i) * 16777215,
       position_x = (random (10 * i + 1) - 0.5) * 50,
       position_y = (random (10 * i + 2) - 0.5) * 50,
       position_z = (random (10 * i + 3) - 0.5) * 50,
       rotation_x = 0, rotation_y = 0, rotation_z = 0,
       velocity_x = (random (10 * i + 4) - 0.5) * 0.02,
       velocity_y = (random (10 * i + 5) - 0.5) * 0.02,
       velocity_z = (random (10 * i + 6) - 0.5) * 0.02,
       velocity_rx = (random (10 * i + 7) - 0.5) * 0.05,
       velocity_ry = (random (10 * i + 8) - 0.5) * 0.05,
       velocity_rz = (random (10 * i + 9) - 0.5) * 0.05 \<rparr>"

function createScene_loop :: "(nat \<Rightarrow> real) \<Rightarrow> real \<Rightarrow> nat \<Rightarrow> mesh list \<Rightarrow> mesh list" where
  \<comment> \<open>\<open>for (let i = 0; i < objectCount; i++) { ...; objects.push(cube); }\<close>\<close>
  "createScene_loop random n i objs =
     (if real i < n then createScene_loop random n (Suc i) (objs @ [make_cube random i])
      else objs)"
  by pat_completeness auto
termination
proof (relation "measure (\<lambda>(random, n, i, objs). nat \<lceil>n\<rceil> - i)")
  show "wf (measure (\<lambda>(random, n, i, objs). nat \<lceil>n::real\<rceil> - i))"
    by simp
next
  fix random :: "nat \<Rightarrow> real" and n :: real and i :: nat and objs :: "mesh list"
  assume "real i < n"
  then have "int i < \<lceil>n\<rceil>"
    by linarith
  then have "i < nat \<lceil>n\<rceil>"
    by linarith
  then show "((random, n, Suc i, objs @ [make_cube random i]), (random, n, i, objs))
      \<in> measure (\<lambda>(random, n, i, objs). nat \<lceil>n\<rceil> - i)"
    by simp
qed

declare createScene_loop.simps [simp del]

datatype js_error = TypeError

definition createScene :: "(nat \<Rightarrow> real) \<Rightarrow> worker \<Rightarrow> js_error + worker" where
  \<comment> \<open>Reading \<open>scene.children\<close> of an undefined scene raises before anything is changed.\<close>
  "createScene random w =
     (case scene w of
        None \<Rightarrow> Inl TypeError
      | Some _ \<Rightarrow>
          Inr (w\<lparr> scene := Some [AmbientLight, DirectionalLight],
                  objects := createScene_loop random (objectCount w) 0 [] \<rparr>))"

section \<open>Frame loop and statistics\<close>

definition update_object :: "mesh \<Rightarrow> mesh" where
  \<comment> \<open>The body of \<open>objects.forEach\<close>, the same text in the worker and on the main thread.\<close>
  "update_object obj =
     (let px = position_x obj + velocity_x obj;
          py = position_y obj + velocity_y obj;
          pz = position_z obj + velocity_z obj;
          vx = (if \<bar>px\<bar> > 25 then velocity_x obj * (- 1) else velocity_x obj);
          vy = (if \<bar>py\<bar> > 25 then velocity_y obj * (- 1) else velocity_y obj);
          vz = (if \<bar>pz\<bar> > 25 then velocity_z obj * (- 1) else velocity_z obj)
      in obj\<lparr> position_x := px, position_y := py, position_z := pz,
              velocity_x := vx, velocity_y := vy, velocity_z := vz,
              rotation_x := rotation_x obj + velocity_rx obj,
              rotation_y := rotation_y obj + velocity_ry obj,
              rotation_z := rotation_z obj + velocity_rz obj \<rparr>)"

definition push_bounded :: "nat \<Rightarrow> real list \<Rightarrow> real \<Rightarrow> real list" where
  \<comment> \<open>\<open>buf.push(v); if (buf.length > cap) buf.shift();\<close>\<close>
  "push_bounded cap buf v =
     (let pushed = buf @ [v] in if length pushed > cap then tl pushed else pushed)"

definition average :: "real list \<Rightarrow> real" where
  \<comment> \<open>\<open>buf.reduce((a, b) => a + b, 0) / buf.length\<close>, which the code evaluates only
      right after a push, on a buffer that is not empty.\<close>
  "average buf = foldl (+) 0 buf / real (length buf)"

definition record_interaction_delay :: "real \<Rightarrow> 'a perf_scheme \<Rightarrow> 'a perf_scheme" where
  \<comment> \<open>The block \<open>if (lastInteractionTime > 0) { ... }\<close> in the worker and on the main thread.\<close>
  "record_interaction_delay dateNow p =
     (if lastInteractionTime p > 0 then
        let currentDelay = dateNow - lastInteractionTime p;
            buf = push_bounded 30 (interactionDelays p) currentDelay
        in p\<lparr> interactionDelays := buf, interactionDelay := average buf,
              lastInteractionTime := 0 \<rparr>
      else p)"

definition record_frame_time :: "real \<Rightarrow> 'a perf_scheme \<Rightarrow> 'a perf_scheme" where
  \<comment> \<open>From \<open>frameTimes.push(frameTime)\<close> to \<open>frames++\<close>.\<close>
  "record_frame_time frameTime p =
     p\<lparr> frameTimes := push_bounded 60 (frameTimes p) frameTime,
        droppedFrames := (if frameTime > TARGET_FRAME_TIME then droppedFrames p + 1
                          else droppedFrames p),
        maxDelay := max (maxDelay p) frameTime,
        frames := frames p + 1 \<rparr>"

definition stats_message :: "int \<Rightarrow> 'a perf_scheme \<Rightarrow> PerformanceStats" where
  \<comment> \<open>The object passed to \<open>self.postMessage\<close> and to \<open>setStats\<close>.\<close>
  "stats_message f p =
     \<lparr> stats_fps = f,
       stats_avgFrameTime = toFixed2 (average (frameTimes p)),
       stats_droppedFrames = droppedFrames p,
       stats_maxDelay = toFixed2 (maxDelay p),
       stats_interactionDelay = toFixed2 (interactionDelay p) \<rparr>"

definition frame_body :: "clock \<Rightarrow> worker \<Rightarrow> worker" where
  \<comment> \<open>The worker's \<open>animate\<close> up to \<open>frames++\<close>; rendering itself is not modelled.
      The frame callback runs only in a worker that \<open>init\<close> has set up; without a
      camera or a renderer the source would raise before the statistics.\<close>
  "frame_body c w =
     (let w1 = updateCameraPosition w;
          w2 = record_interaction_delay (Date_now c) w1;
          w3 = w2\<lparr> objects := map update_object (objects w2) \<rparr>
      in record_frame_time (frameEnd c - frameStart c) w3)"

definition emit_stats :: "real \<Rightarrow> worker \<Rightarrow> worker" where
  \<comment> \<open>The body of \<open>if (now >= lastTime + 1000) { ... }\<close> in the worker.\<close>
  "emit_stats t w =
     (let f = Math_round (real (frames w) * 1000 / (t - lastTime w));
          w1 = w\<lparr> fps := f, frames := 0, lastTime := t \<rparr>;
          w2 = w1\<lparr> posted := posted w1 @ [stats_message f w1] \<rparr>
      in w2\<lparr> droppedFrames := 0, maxDelay := 0 \<rparr>)"

definition animate :: "clock \<Rightarrow> worker \<Rightarrow> worker" where
  "animate c w =
     (let w1 = frame_body c w
      in if now c \<ge> lastTime w1 + 1000 then emit_stats (now c) w1 else w1)"

section \<open>The worker's message handler\<close>

text \<open>
  \<open>Init width height pixelRatio objectCount\<close> (the count may be absent),
  \<open>Resize width height\<close>, \<open>UpdateCount count\<close>, an interaction, or a message of any
  other type. The handler of \<open>init\<close> runs the first frame itself, so a message comes
  with the clock readings and the random numbers its handling may consume.
\<close>

datatype message =
    Init real real real "real option"
  | Resize real real
  | UpdateCount real
  | Interaction interaction
  | OtherMessage

record env =
  clk :: clock
  Math_random :: "nat \<Rightarrow> real"

fun onmessage :: "env \<Rightarrow> message \<Rightarrow> worker \<Rightarrow> worker \<times> js_error option" where
  "onmessage e (Init width height ratio count) w =
     (let w1 = w\<lparr> objectCount := (if truthy count then the count else 100) \<rparr>;
          w2 = w1\<lparr> scene := Some [],
                   camera := Some \<lparr> aspect = (width, height), camera_position_x = 0,
                                     camera_position_y = 0, camera_position_z = 0,
                                     lookAt = None \<rparr>,
                   renderer := Some \<lparr> renderer_size = (width, height), pixelRatio = ratio \<rparr> \<rparr>;
          w3 = updateCameraPosition w2
      in case createScene (Math_random e) w3 of
           Inl err \<Rightarrow> (w3, Some err)
         | Inr w4 \<Rightarrow> (animate (clk e) w4, None))"
| "onmessage e (Resize width height) w =
     (case camera w of
        None \<Rightarrow> (w, Some TypeError)
      | Some cam \<Rightarrow>
          (let w1 = w\<lparr> camera := Some (cam\<lparr> aspect := (width, height) \<rparr>) \<rparr>
           in (case renderer w1 of
                 None \<Rightarrow> (w1, Some TypeError)
               | Some r \<Rightarrow>
                   (w1\<lparr> renderer := Some (r\<lparr> renderer_size := (width, height) \<rparr>) \<rparr>, None))))"
| "onmessage e (UpdateCount count) w =
     (let w1 = w\<lparr> objectCount := count \<rparr>
      in case createScene (Math_random e) w1 of
           Inl err \<Rightarrow> (w1, Some err)
         | Inr w2 \<Rightarrow> (w2, None))"
| "onmessage e (Interaction i) w = (handleInteraction i w, None)"
| "onmessage e OtherMessage w = (w, None)"

text \<open>
  What happens to the worker: a message arrives, or the frame callback fires. The
  callback exists only once \<open>init\<close> has started the loop, that is once the camera exists.
\<close>

datatype event = Message env message | Frame clock

fun worker_step :: "worker \<Rightarrow> event \<Rightarrow> worker" where
  "worker_step w (Message e m) = fst (onmessage e m w)"
| "worker_step w (Frame c) = (if camera w = None then w else animate c w)"

definition run :: "event list \<Rightarrow> worker \<Rightarrow> worker" where
  "run es w = foldl worker_step w es"

section \<open>The main-thread loop\<close>

datatype RenderMode = none | offscreen | main

text \<open>
  The part of the component \<open>OffscreenDemo\<close> that its own frame loop reads and writes:
  \<open>perfRef.current\<close>, \<open>objectsRef.current\<close>, the mode and the \<open>stats\<close> state. The orbit
  controls and the renderer belong to the 3D library and are not modelled.
\<close>

record main_thread = perf +
  currentMode :: RenderMode
  objectsRef :: "mesh list"
  stats :: PerformanceStats

definition main_frame_body :: "clock \<Rightarrow> main_thread \<Rightarrow> main_thread" where
  "main_frame_body c s =
     (let s1 = record_interaction_delay (Date_now c) s;
          s2 = s1\<lparr> objectsRef := map update_object (objectsRef s1) \<rparr>
      in record_frame_time (frameEnd c - frameStart c) s2)"

definition main_emit_stats :: "real \<Rightarrow> main_thread \<Rightarrow> main_thread" where
  "main_emit_stats t s =
     (let f = Math_round (real (frames s) * 1000 / (t - lastTime s));
          s1 = s\<lparr> frames := 0, lastTime := t \<rparr>;
          s2 = s1\<lparr> stats := stats_message f s1 \<rparr>
      in s2\<lparr> droppedFrames := 0, maxDelay := 0 \<rparr>)"

definition main_animate :: "clock \<Rightarrow> main_thread \<Rightarrow> main_thread" where
  \<comment> \<open>\<open>animate\<close> of the component; it returns at once unless the mode is \<open>main\<close>.\<close>
  "main_animate c s =
     (if currentMode s \<noteq> main then s
      else
        let s1 = main_frame_body c s
        in if now c \<ge> lastTime s1 + 1000 then main_emit_stats (now c) s1 else s1)"


definition objectCount_main :: nat where
  "objectCount_main = 20000"

definition main_createScene :: "(nat \<Rightarrow> real) \<Rightarrow> main_thread \<Rightarrow> main_thread" where
  \<comment> \<open>\<open>createScene\<close> of the component, with its scene present.\<close>
  "main_createScene random s =
     s\<lparr> objectsRef := createScene_loop random (real objectCount_main) 0 [] \<rparr>"

definition fresh_perf :: "real \<Rightarrow> perf" where
  \<comment> \<open>The object literal assigned to \<open>perfRef.current\<close> at creation, by
      \<open>toggleRenderMode\<close> and by \<open>clearCanvas\<close>.\<close>
  "fresh_perf t =
     \<lparr> lastTime = t, frames = 0, frameTimes = [], droppedFrames = 0, maxDelay = 0,
       lastInteractionTime = 0, interactionDelay = 0, interactionDelays = [] \<rparr>"

section \<open>Classifying messages\<close>

fun is_rotate :: "message \<Rightarrow> bool" where
  "is_rotate (Interaction (Rotate deltaX deltaY)) = True"
| "is_rotate m = False"

fun is_zoom :: "message \<Rightarrow> bool" where
  "is_zoom (Interaction (Zoom delta timestamp)) = True"
| "is_zoom m = False"

section \<open>Timestamps of the senders\<close>




section \<open>Invariants of the camera targets\<close>

definition pitch_ok :: "worker \<Rightarrow> bool" where
  "pitch_ok w =
     (- Math_PI / 2 \<le> cameraRotationTarget_x w \<and> cameraRotationTarget_x w \<le> Math_PI / 2)"

definition distance_ok :: "worker \<Rightarrow> bool" where
  "distance_ok w = (10 \<le> cameraDistanceTarget w \<and> cameraDistanceTarget w \<le> 100)"

section \<open>Invariant of the animated objects\<close>

definition axis_ok :: "real \<Rightarrow> real \<Rightarrow> bool" where
  \<comment> \<open>A position component is within the boundary, or one step of its velocity
      brings it back within.\<close>
  "axis_ok p v = (\<bar>p\<bar> \<le> 25 \<or> \<bar>p + v\<bar> \<le> 25)"

definition object_ok :: "mesh \<Rightarrow> bool" where
  "object_ok obj =
     (axis_ok (position_x obj) (velocity_x obj)
      \<and> axis_ok (position_y obj) (velocity_y obj)
      \<and> axis_ok (position_z obj) (velocity_z obj))"

definition random_ok :: "(nat \<Rightarrow> real) \<Rightarrow> bool" where
  \<comment> \<open>\<open>Math.random()\<close> returns a number in \<open>[0, 1)\<close>.\<close>
  "random_ok r = (\<forall>k. 0 \<le> r k \<and> r k < 1)"

fun event_ok :: "event \<Rightarrow> bool" where
  "event_ok (Message e m) = random_ok (Math_random e)"
| "event_ok (Frame c) = True"

definition events_ok :: "event list \<Rightarrow> bool" where
  "events_ok es = list_all event_ok es"

section \<open>Bouncing\<close>

definition axis_bounces :: "real \<Rightarrow> real \<Rightarrow> real \<Rightarrow> real \<Rightarrow> bool" where
  \<comment> \<open>For one component: \<open>v\<close> the velocity before a frame, \<open>p1\<close> and \<open>v1\<close> position and
      velocity after it, \<open>p2\<close> the position after the next frame. If \<open>p1\<close> is beyond the
      boundary, the velocity was flipped on that frame and the next frame brings the
      component back, to within the boundary.\<close>
  "axis_bounces v p1 v1 p2 = (25 < \<bar>p1\<bar> \<longrightarrow> v1 = - v \<and> \<bar>p2\<bar> < \<bar>p1\<bar> \<and> \<bar>p2\<bar> \<le> 25)"

definition bounces_back :: "mesh \<Rightarrow> bool" where
  "bounces_back obj =
     (let obj1 = update_object obj; obj2 = update_object obj1
      in axis_bounces (velocity_x obj) (position_x obj1) (velocity_x obj1) (position_x obj2)
         \<and> axis_bounces (velocity_y obj) (position_y obj1) (velocity_y obj1) (position_y obj2)
         \<and> axis_bounces (velocity_z obj) (position_z obj1) (velocity_z obj1) (position_z obj2))"

section \<open>Frames of a statistics window\<close>

definition frameTime :: "clock \<Rightarrow> real" where
  \<comment> \<open>\<open>const frameTime = performance.now() - frameStart\<close>\<close>
  "frameTime c = frameEnd c - frameStart c"

definition over_target :: "clock \<Rightarrow> bool" where
  "over_target c = (frameTime c > TARGET_FRAME_TIME)"

fun event_frames :: "event \<Rightarrow> clock list" where
  \<comment> \<open>The calls of \<open>animate\<close> an event makes once the loop is running.\<close>
  "event_frames (Frame c) = [c]"
| "event_frames (Message e (Init width height ratio count)) = [clk e]"
| "event_frames (Message e m) = []"

definition window_frames :: "event list \<Rightarrow> clock list" where
  "window_frames es = concat (map event_frames es)"

section \<open>Invariant of the rolling buffers\<close>

definition buffers_ok :: "'a perf_scheme \<Rightarrow> bool" where
  "buffers_ok p = (length (interactionDelays p) \<le> 30 \<and> length (frameTimes p) \<le> 60)"

section \<open>The shape of a number with two decimals\<close>

definition is_digit :: "char \<Rightarrow> bool" where
  "is_digit ch = (ch \<in> set ''0123456789'')"

fun unsigned :: "string \<Rightarrow> string" where
  "unsigned [] = []"
| "unsigned (ch # cs) = (if ch = CHR ''-'' then cs else ch # cs)"

fun two_decimals :: "js_string \<Rightarrow> bool" where
  \<comment> \<open>An optional minus sign, one or more digits, a point, two digits.\<close>
  "two_decimals (Str ds) =
     (let b = unsigned ds; k = length b
      in 4 \<le> k \<and> list_all is_digit (take (k - 3) b) \<and> b ! (k - 3) = CHR ''.''
         \<and> list_all is_digit (drop (k - 2) b))"
| "two_decimals (SignedToString s a) = False"

section \<open>The posted object\<close>

text \<open>
  The object literal handed to \<open>self.postMessage\<close>, field by field, with the kind of
  value JavaScript gives each field: \<open>fps\<close> and \<open>droppedFrames\<close> are the number
  variables themselves, the other three are results of \<open>toFixed(2)\<close>.
\<close>

datatype js_value = JSNumber real | JSString js_string

definition stats_object :: "PerformanceStats \<Rightarrow> (string \<times> js_value) list" where
  "stats_object m =
     [(''type'', JSString (Str ''stats'')),
      (''fps'', JSNumber (real_of_int (stats_fps m))),
      (''avgFrameTime'', JSString (stats_avgFrameTime m)),
      (''droppedFrames'', JSNumber (real (stats_droppedFrames m))),
      (''maxDelay'', JSString (stats_maxDelay m)),
      (''interactionDelay'', JSString (stats_interactionDelay m))]"

fun two_decimal_string :: "js_value \<Rightarrow> bool" where
  "two_decimal_string (JSString ds) = two_decimals ds"
| "two_decimal_string (JSNumber v) = False"

section \<open>Sample inputs\<close>

definition clock0 :: clock where
  "clock0 = \<lparr> frameStart = 0, Date_now = 0, frameEnd = 0, now = 0 \<rparr>"

definition env0 :: env where
  "env0 = \<lparr> clk = clock0, Math_random = (\<lambda>k. 1 / 2) \<rparr>"

definition env1 :: env where
  \<comment> \<open>Random numbers that put the first cube next to the boundary in all three
      directions, moving outwards.\<close>
  "env1 = \<lparr> clk = clock0,
            Math_random = (\<lambda>k. if k \<in> {1, 2, 3} then 0.9999
                                else if k \<in> {4, 5, 6} then 0.9 else 1 / 2) \<rparr>"

definition stats0 :: PerformanceStats where
  \<comment> \<open>The initial value of the component's \<open>stats\<close> state.\<close>
  "stats0 = \<lparr> stats_fps = 0, stats_avgFrameTime = Str ''0'', stats_droppedFrames = 0,
              stats_maxDelay = Str ''0'', stats_interactionDelay = Str ''0'' \<rparr>"

definition main0 :: main_thread where
  "main0 = \<lparr> lastTime = 0, frames = 0, frameTimes = [], droppedFrames = 0, maxDelay = 0,
             lastInteractionTime = 0, interactionDelay = 0, interactionDelays = [],
             currentMode = main, objectsRef = [], stats = stats0 \<rparr>"

definition clock1 :: clock where
  \<comment> \<open>A frame of 20 ms.\<close>
  "clock1 = \<lparr> frameStart = 0, Date_now = 130, frameEnd = 20, now = 500 \<rparr>"

definition clock2 :: clock where
  \<comment> \<open>A frame of 5 ms.\<close>
  "clock2 = \<lparr> frameStart = 600, Date_now = 700, frameEnd = 605, now = 800 \<rparr>"

definition clock3 :: clock where
  \<comment> \<open>A frame of 17 ms that ends more than a second after time 0.\<close>
  "clock3 = \<lparr> frameStart = 900, Date_now = 1000, frameEnd = 917, now = 1001 \<rparr>"

definition worker0 :: worker where
  \<comment> \<open>The worker after \<open>init\<close> with one cube: scene, camera and renderer exist and the
      first frame has run.\<close>
  "worker0 = run [Message env0 (Init 800 600 1 (Some 1))] (initial_worker 0)"

definition worker2 :: worker where
  \<comment> \<open>The worker after two more frames.\<close>
  "worker2 = run [Frame clock1, Frame clock2] worker0"

section \<open>Camera targets and damping\<close>

lemma updateCameraPosition_targets:
  "cameraRotationTarget_x (updateCameraPosition w) = cameraRotationTarget_x w"
  "cameraRotationTarget_y (updateCameraPosition w) = cameraRotationTarget_y w"
  "cameraDistanceTarget (updateCameraPosition w) = cameraDistanceTarget w"
  by (simp_all add: updateCameraPosition_def Let_def)

lemma frame_body_targets:
  "cameraRotationTarget_x (frame_body c w) = cameraRotationTarget_x w"
  "cameraRotationTarget_y (frame_body c w) = cameraRotationTarget_y w"
  "cameraDistanceTarget (frame_body c w) = cameraDistanceTarget w"
  by (simp_all add: frame_body_def Let_def record_frame_time_def record_interaction_delay_def updateCameraPosition_targets)

lemma emit_stats_targets:
  "cameraRotationTarget_x (emit_stats t w) = cameraRotationTarget_x w"
  "cameraRotationTarget_y (emit_stats t w) = cameraRotationTarget_y w"
  "cameraDistanceTarget (emit_stats t w) = cameraDistanceTarget w"
  by (simp_all add: emit_stats_def Let_def)

lemma animate_targets:
  "cameraRotationTarget_x (animate c w) = cameraRotationTarget_x w"
  "cameraRotationTarget_y (animate c w) = cameraRotationTarget_y w"
  "cameraDistanceTarget (animate c w) = cameraDistanceTarget w"
  by (simp_all add: animate_def Let_def frame_body_targets emit_stats_targets)

lemma createScene_targets:
  assumes "createScene r w = Inr w'"
  shows "cameraRotationTarget_x w' = cameraRotationTarget_x w"
    and "cameraRotationTarget_y w' = cameraRotationTarget_y w"
    and "cameraDistanceTarget w' = cameraDistanceTarget w"
  using assms by (auto simp: createScene_def split: option.splits)

lemma onmessage_pitch_other:
  assumes "\<not> is_rotate m"
  shows "cameraRotationTarget_x (fst (onmessage e m w)) = cameraRotationTarget_x w"
proof (cases m)
  case (Init wd h r cnt)
  then show ?thesis
    by (auto simp: Let_def animate_targets updateCameraPosition_targets
        dest: createScene_targets split: sum.splits)
next
  case (Resize wd h)
  then show ?thesis by (simp add: Let_def split: option.splits)
next
  case (UpdateCount n)
  then show ?thesis by (auto simp: Let_def dest: createScene_targets split: sum.splits)
next
  case (Interaction i)
  with assms show ?thesis by (cases i) (auto simp: Let_def)
next
  case OtherMessage
  then show ?thesis by simp
qed

lemma onmessage_rotate_pitch:
  "cameraRotationTarget_x (fst (onmessage e (Interaction (Rotate dx dy)) w)) =
     (if isDragging w
      then max (- Math_PI / 2) (min (Math_PI / 2) (cameraRotationTarget_x w + dy * 0.005))
      else cameraRotationTarget_x w)"
  by (simp add: Let_def)

lemma Math_PI_pos: "0 < Math_PI"
  by (simp add: Math_PI_def)

lemma clamp_bounds:
  fixes lo hi v :: real
  assumes "lo \<le> hi"
  shows "lo \<le> max lo (min hi v)" and "max lo (min hi v) \<le> hi"
  using assms by auto

lemma pitch_clamp:
  "- Math_PI / 2 \<le> max (- Math_PI / 2) (min (Math_PI / 2) v)"
  "max (- Math_PI / 2) (min (Math_PI / 2) v) \<le> Math_PI / 2"
  using Math_PI_pos by (auto intro!: clamp_bounds)

lemma onmessage_pitch_ok:
  assumes "pitch_ok w"
  shows "pitch_ok (fst (onmessage e m w))"
proof (cases "is_rotate m")
  case False
  then show ?thesis using assms by (simp add: pitch_ok_def onmessage_pitch_other)
next
  case True
  then obtain dx dy where "m = Interaction (Rotate dx dy)"
    by (cases m rule: is_rotate.cases) simp_all
  then show ?thesis using assms pitch_clamp
    by (simp add: pitch_ok_def onmessage_rotate_pitch del: onmessage.simps)
qed

lemma worker_step_pitch_ok: "pitch_ok w \<Longrightarrow> pitch_ok (worker_step w ev)"
  by (cases ev) (simp_all add: onmessage_pitch_ok, simp add: pitch_ok_def animate_targets)

lemma run_pitch_ok: "pitch_ok w \<Longrightarrow> pitch_ok (run es w)"
  unfolding run_def by (induction es arbitrary: w) (simp_all add: worker_step_pitch_ok)

lemma initial_pitch_ok: "pitch_ok (initial_worker start)"
  using Math_PI_pos by (simp add: pitch_ok_def initial_worker_def)

lemma onmessage_distance_other:
  assumes "\<not> is_zoom m"
  shows "cameraDistanceTarget (fst (onmessage e m w)) = cameraDistanceTarget w"
proof (cases m)
  case (Init wd h r cnt)
  then show ?thesis
    by (auto simp: Let_def animate_targets updateCameraPosition_targets
        dest: createScene_targets split: sum.splits)
next
  case (Resize wd h)
  then show ?thesis by (simp add: Let_def split: option.splits)
next
  case (UpdateCount n)
  then show ?thesis by (auto simp: Let_def dest: createScene_targets split: sum.splits)
next
  case (Interaction i)
  with assms show ?thesis by (cases i) (auto simp: Let_def)
next
  case OtherMessage
  then show ?thesis by simp
qed

lemma onmessage_zoom_distance:
  "cameraDistanceTarget (fst (onmessage e (Interaction (Zoom delta ts)) w)) =
     max 10 (min 100 (cameraDistanceTarget w + delta * 0.05))"
  by (simp add: Let_def)

lemma onmessage_distance_ok:
  assumes "distance_ok w"
  shows "distance_ok (fst (onmessage e m w))"
proof (cases "is_zoom m")
  case False
  then show ?thesis using assms by (simp add: distance_ok_def onmessage_distance_other)
next
  case True
  then obtain d ts where "m = Interaction (Zoom d ts)"
    by (cases m rule: is_zoom.cases) simp_all
  then show ?thesis
    by (simp add: distance_ok_def onmessage_zoom_distance del: onmessage.simps)
qed

lemma worker_step_distance_ok: "distance_ok w \<Longrightarrow> distance_ok (worker_step w ev)"
  by (cases ev) (simp_all add: onmessage_distance_ok, simp add: distance_ok_def animate_targets)

lemma run_distance_ok: "distance_ok w \<Longrightarrow> distance_ok (run es w)"
  unfolding run_def by (induction es arbitrary: w) (simp_all add: worker_step_distance_ok)

lemma initial_distance_ok: "distance_ok (initial_worker start)"
  by (simp add: distance_ok_def initial_worker_def)

lemma updateCameraPosition_current:
  "cameraRotation_x (updateCameraPosition w) =
     cameraRotation_x w + (cameraRotationTarget_x w - cameraRotation_x w) * dampingFactor"
  "cameraRotation_y (updateCameraPosition w) =
     cameraRotation_y w + (cameraRotationTarget_y w - cameraRotation_y w) * dampingFactor"
  "cameraDistance (updateCameraPosition w) =
     cameraDistance w + (cameraDistanceTarget w - cameraDistance w) * dampingFactor"
  by (simp_all add: updateCameraPosition_def Let_def)

lemma frame_body_current:
  "cameraRotation_x (frame_body c w) = cameraRotation_x (updateCameraPosition w)"
  "cameraRotation_y (frame_body c w) = cameraRotation_y (updateCameraPosition w)"
  "cameraDistance (frame_body c w) = cameraDistance (updateCameraPosition w)"
  "camera (frame_body c w) = camera (updateCameraPosition w)"
  by (simp_all add: frame_body_def Let_def record_frame_time_def record_interaction_delay_def)

lemma emit_stats_current:
  "cameraRotation_x (emit_stats t w) = cameraRotation_x w"
  "cameraRotation_y (emit_stats t w) = cameraRotation_y w"
  "cameraDistance (emit_stats t w) = cameraDistance w"
  "camera (emit_stats t w) = camera w"
  by (simp_all add: emit_stats_def Let_def)

lemma animate_current:
  "cameraRotation_x (animate c w) = cameraRotation_x (updateCameraPosition w)"
  "cameraRotation_y (animate c w) = cameraRotation_y (updateCameraPosition w)"
  "cameraDistance (animate c w) = cameraDistance (updateCameraPosition w)"
  "camera (animate c w) = camera (updateCameraPosition w)"
  by (simp_all add: animate_def Let_def frame_body_current emit_stats_current)

lemma damp_error:
  "v + (t - v) * dampingFactor - t = (19 / 20) * (v - t)"
proof -
  have "v + (t - v) * (1 / 20) - t = (19 / 20) * (v - t)"
    by argo
  moreover have "dampingFactor = 1 / 20"
    by (simp add: dampingFactor_def)
  ultimately show ?thesis
    by (simp only:)
qed

lemma damp_abs:
  "\<bar>v + (t - v) * dampingFactor - t\<bar> \<le> \<bar>v - t\<bar>"
proof -
  have "\<bar>(19 / 20) * (v - t)\<bar> = \<bar>19 / 20 :: real\<bar> * \<bar>v - t\<bar>"
    by (rule abs_mult)
  also have "\<dots> \<le> 1 * \<bar>v - t\<bar>"
    by (intro mult_right_mono) simp_all
  also have "\<dots> = \<bar>v - t\<bar>"
    by simp
  finally show ?thesis
    by (simp only: damp_error)
qed

lemma fold_animate_targets:
  "cameraRotationTarget_x (fold animate cs w) = cameraRotationTarget_x w"
  "cameraRotationTarget_y (fold animate cs w) = cameraRotationTarget_y w"
  "cameraDistanceTarget (fold animate cs w) = cameraDistanceTarget w"
  by (induction cs arbitrary: w; simp add: animate_targets)+

lemma animate_error:
  "cameraRotation_x (animate c w) - cameraRotationTarget_x w =
     (19 / 20) * (cameraRotation_x w - cameraRotationTarget_x w)"
  "cameraRotation_y (animate c w) - cameraRotationTarget_y w =
     (19 / 20) * (cameraRotation_y w - cameraRotationTarget_y w)"
  "cameraDistance (animate c w) - cameraDistanceTarget w =
     (19 / 20) * (cameraDistance w - cameraDistanceTarget w)"
  by (simp_all only: animate_current updateCameraPosition_current damp_error)

lemma fold_animate_closed_x:
  "cameraRotation_x (fold animate cs w) - cameraRotationTarget_x w =
     (19 / 20) ^ length cs * (cameraRotation_x w - cameraRotationTarget_x w)"
proof (induction cs arbitrary: w)
  case Nil
  show ?case by simp
next
  case (Cons c cs)
  have "cameraRotation_x (fold animate (c # cs) w) - cameraRotationTarget_x w =
      cameraRotation_x (fold animate cs (animate c w)) - cameraRotationTarget_x (animate c w)"
    by (simp add: animate_targets)
  also have "\<dots> = (19 / 20) ^ length cs
      * (cameraRotation_x (animate c w) - cameraRotationTarget_x (animate c w))"
    by (rule Cons.IH)
  also have "\<dots> = (19 / 20) ^ length cs
      * ((19 / 20) * (cameraRotation_x w - cameraRotationTarget_x w))"
    by (simp only: animate_targets animate_error)
  finally show ?case by simp
qed

lemma fold_animate_closed_y:
  "cameraRotation_y (fold animate cs w) - cameraRotationTarget_y w =
     (19 / 20) ^ length cs * (cameraRotation_y w - cameraRotationTarget_y w)"
proof (induction cs arbitrary: w)
  case Nil
  show ?case by simp
next
  case (Cons c cs)
  have "cameraRotation_y (fold animate (c # cs) w) - cameraRotationTarget_y w =
      cameraRotation_y (fold animate cs (animate c w)) - cameraRotationTarget_y (animate c w)"
    by (simp add: animate_targets)
  also have "\<dots> = (19 / 20) ^ length cs
      * (cameraRotation_y (animate c w) - cameraRotationTarget_y (animate c w))"
    by (rule Cons.IH)
  also have "\<dots> = (19 / 20) ^ length cs
      * ((19 / 20) * (cameraRotation_y w - cameraRotationTarget_y w))"
    by (simp only: animate_targets animate_error)
  finally show ?case by simp
qed

lemma fold_animate_closed_d:
  "cameraDistance (fold animate cs w) - cameraDistanceTarget w =
     (19 / 20) ^ length cs * (cameraDistance w - cameraDistanceTarget w)"
proof (induction cs arbitrary: w)
  case Nil
  show ?case by simp
next
  case (Cons c cs)
  have "cameraDistance (fold animate (c # cs) w) - cameraDistanceTarget w =
      cameraDistance (fold animate cs (animate c w)) - cameraDistanceTarget (animate c w)"
    by (simp add: animate_targets)
  also have "\<dots> = (19 / 20) ^ length cs
      * (cameraDistance (animate c w) - cameraDistanceTarget (animate c w))"
    by (rule Cons.IH)
  also have "\<dots> = (19 / 20) ^ length cs
      * ((19 / 20) * (cameraDistance w - cameraDistanceTarget w))"
    by (simp only: animate_targets animate_error)
  finally show ?case by simp
qed

lemma geometric_limit:
  fixes f :: "nat \<Rightarrow> real"
  assumes "\<And>n. f n - t = (19 / 20) ^ n * k"
  shows "f \<longlonglongrightarrow> t"
proof -
  have "(\<lambda>n. (19 / 20 :: real) ^ n) \<longlonglongrightarrow> 0"
    by (rule LIMSEQ_realpow_zero) simp_all
  then have "(\<lambda>n. t + (19 / 20) ^ n * k) \<longlonglongrightarrow> t + 0 * k"
    by (intro tendsto_add tendsto_mult tendsto_const)
  moreover have "f = (\<lambda>n. t + (19 / 20) ^ n * k)"
    using assms by (auto simp: fun_eq_iff algebra_simps)
  ultimately show ?thesis by simp
qed

text \<open>
  Claim C1. With the targets fixed, every frame moves each of yaw
  (\<open>cameraRotation.y\<close>), pitch (\<open>cameraRotation.x\<close>) and distance by
  \<open>current += (target - current) * dampingFactor\<close>, the factor being 0.05, whatever
  the clock readings and whether or not input arrived. The distance of each current
  value from its target does not grow from one frame to the next, and over the frames
  the current value converges to the target.
\<close>

theorem camera_damping_converges:
  "dampingFactor = 0.05
   \<and> cameraRotation_y (animate c w) =
       cameraRotation_y w + (cameraRotationTarget_y w - cameraRotation_y w) * dampingFactor
   \<and> cameraRotation_x (animate c w) =
       cameraRotation_x w + (cameraRotationTarget_x w - cameraRotation_x w) * dampingFactor
   \<and> cameraDistance (animate c w) =
       cameraDistance w + (cameraDistanceTarget w - cameraDistance w) * dampingFactor
   \<and> \<bar>cameraRotation_y (animate c w) - cameraRotationTarget_y (animate c w)\<bar>
       \<le> \<bar>cameraRotation_y w - cameraRotationTarget_y w\<bar>
   \<and> \<bar>cameraRotation_x (animate c w) - cameraRotationTarget_x (animate c w)\<bar>
       \<le> \<bar>cameraRotation_x w - cameraRotationTarget_x w\<bar>
   \<and> \<bar>cameraDistance (animate c w) - cameraDistanceTarget (animate c w)\<bar>
       \<le> \<bar>cameraDistance w - cameraDistanceTarget w\<bar>
   \<and> (\<lambda>n. cameraRotation_y (fold animate (map cs [0..<n]) w))
       \<longlonglongrightarrow> cameraRotationTarget_y w
   \<and> (\<lambda>n. cameraRotation_x (fold animate (map cs [0..<n]) w))
       \<longlonglongrightarrow> cameraRotationTarget_x w
   \<and> (\<lambda>n. cameraDistance (fold animate (map cs [0..<n]) w))
       \<longlonglongrightarrow> cameraDistanceTarget w"
proof (intro conjI)
  show "dampingFactor = 0.05"
    by (simp add: dampingFactor_def)
  show "cameraRotation_y (animate c w) =
       cameraRotation_y w + (cameraRotationTarget_y w - cameraRotation_y w) * dampingFactor"
    and "cameraRotation_x (animate c w) =
       cameraRotation_x w + (cameraRotationTarget_x w - cameraRotation_x w) * dampingFactor"
    and "cameraDistance (animate c w) =
       cameraDistance w + (cameraDistanceTarget w - cameraDistance w) * dampingFactor"
    by (simp_all only: animate_current updateCameraPosition_current)
  show "\<bar>cameraRotation_y (animate c w) - cameraRotationTarget_y (animate c w)\<bar>
       \<le> \<bar>cameraRotation_y w - cameraRotationTarget_y w\<bar>"
    and "\<bar>cameraRotation_x (animate c w) - cameraRotationTarget_x (animate c w)\<bar>
       \<le> \<bar>cameraRotation_x w - cameraRotationTarget_x w\<bar>"
    and "\<bar>cameraDistance (animate c w) - cameraDistanceTarget (animate c w)\<bar>
       \<le> \<bar>cameraDistance w - cameraDistanceTarget w\<bar>"
    by (simp_all only: animate_targets animate_current updateCameraPosition_current damp_abs)
  show "(\<lambda>n. cameraRotation_y (fold animate (map cs [0..<n]) w))
       \<longlonglongrightarrow> cameraRotationTarget_y w"
    by (rule geometric_limit [where k = "cameraRotation_y w - cameraRotationTarget_y w"])
      (simp add: fold_animate_closed_y)
  show "(\<lambda>n. cameraRotation_x (fold animate (map cs [0..<n]) w))
       \<longlonglongrightarrow> cameraRotationTarget_x w"
    by (rule geometric_limit [where k = "cameraRotation_x w - cameraRotationTarget_x w"])
      (simp add: fold_animate_closed_x)
  show "(\<lambda>n. cameraDistance (fold animate (map cs [0..<n]) w))
       \<longlonglongrightarrow> cameraDistanceTarget w"
    by (rule geometric_limit [where k = "cameraDistance w - cameraDistanceTarget w"])
      (simp add: fold_animate_closed_d)
qed

text \<open>
  Claim C2. Whatever messages and frames the worker has processed since it was
  loaded, the pitch target \<open>cameraRotationTarget.x\<close> lies in \<open>[-\<pi>/2, \<pi>/2]\<close>. A
  \<open>rotate\<close> message, from any state, either leaves the pitch target as it was (no drag
  in progress) or sets it to the clamped sum, which is in the range; a message of any
  other kind leaves it as it was.
\<close>

theorem pitch_target_clamped:
  "(- Math_PI / 2 \<le> cameraRotationTarget_x (run es (initial_worker start))
     \<and> cameraRotationTarget_x (run es (initial_worker start)) \<le> Math_PI / 2)
   \<and> cameraRotationTarget_x (fst (onmessage e (Interaction (Rotate deltaX deltaY)) w)) =
       (if isDragging w
        then max (- Math_PI / 2) (min (Math_PI / 2) (cameraRotationTarget_x w + deltaY * 0.005))
        else cameraRotationTarget_x w)
   \<and> (- Math_PI / 2 \<le> cameraRotationTarget_x (fst (onmessage e (Interaction (Rotate deltaX deltaY)) w))
        \<and> cameraRotationTarget_x (fst (onmessage e (Interaction (Rotate deltaX deltaY)) w)) \<le> Math_PI / 2
      \<or> cameraRotationTarget_x (fst (onmessage e (Interaction (Rotate deltaX deltaY)) w)) =
          cameraRotationTarget_x w)
   \<and> (\<not> is_rotate m \<longrightarrow>
        cameraRotationTarget_x (fst (onmessage e m w)) = cameraRotationTarget_x w)"
proof (intro conjI impI)
  show "- Math_PI / 2 \<le> cameraRotationTarget_x (run es (initial_worker start))"
    and "cameraRotationTarget_x (run es (initial_worker start)) \<le> Math_PI / 2"
    using run_pitch_ok [OF initial_pitch_ok, of es start] by (simp_all add: pitch_ok_def)
next
  show "cameraRotationTarget_x (fst (onmessage e (Interaction (Rotate deltaX deltaY)) w)) =
       (if isDragging w
        then max (- Math_PI / 2) (min (Math_PI / 2) (cameraRotationTarget_x w + deltaY * 0.005))
        else cameraRotationTarget_x w)"
    by (rule onmessage_rotate_pitch)
next
  show "- Math_PI / 2 \<le> cameraRotationTarget_x (fst (onmessage e (Interaction (Rotate deltaX deltaY)) w))
        \<and> cameraRotationTarget_x (fst (onmessage e (Interaction (Rotate deltaX deltaY)) w)) \<le> Math_PI / 2
      \<or> cameraRotationTarget_x (fst (onmessage e (Interaction (Rotate deltaX deltaY)) w)) =
          cameraRotationTarget_x w"
    using pitch_clamp by (simp add: onmessage_rotate_pitch del: onmessage.simps)
next
  assume "\<not> is_rotate m"
  then show "cameraRotationTarget_x (fst (onmessage e m w)) = cameraRotationTarget_x w"
    by (rule onmessage_pitch_other)
qed

theorem pitch_target_clamped_witness:
  "\<not> is_rotate (Interaction End)
   \<and> cameraRotationTarget_x (run [Message env0 (Interaction (Start None)),
         Message env0 (Interaction (Rotate 0 1000))] (initial_worker 0)) = Math_PI / 2
   \<and> cameraRotationTarget_x (fst (onmessage env0 (Interaction End) (initial_worker 0))) = 0"
  using pi_less_4
    pitch_target_clamped [where es = "[Message env0 (Interaction (Start None)),
         Message env0 (Interaction (Rotate 0 1000))]" and start = 0 and e = env0
      and m = "Interaction End" and w = "initial_worker 0" and deltaX = 0 and deltaY = 1000]
  by (simp add: run_def initial_worker_def Let_def truthy_def Math_PI_def)

text \<open>
  Claim C3. Starting from the initial target distance 30, whatever messages and frames
  the worker has processed, the target distance \<open>cameraDistanceTarget\<close> lies in
  \<open>[10, 100]\<close>; and a \<open>zoom\<close> message with any \<open>delta\<close>, from any state, leaves it in
  \<open>[10, 100]\<close>.
\<close>

theorem zoom_target_clamped:
  "cameraDistanceTarget (initial_worker start) = 30
   \<and> (10 \<le> cameraDistanceTarget (run es (initial_worker start))
     \<and> cameraDistanceTarget (run es (initial_worker start)) \<le> 100)
   \<and> (10 \<le> cameraDistanceTarget (fst (onmessage e (Interaction (Zoom delta timestamp)) w))
     \<and> cameraDistanceTarget (fst (onmessage e (Interaction (Zoom delta timestamp)) w)) \<le> 100)"
  using run_distance_ok [OF initial_distance_ok, of es start]
  by (simp add: distance_ok_def onmessage_zoom_distance initial_worker_def del: onmessage.simps)

theorem zoom_target_clamped_witness:
  "cameraDistanceTarget (run [Message env0 (Interaction (Zoom 100000 None)),
       Message env0 (Interaction (Zoom (- 50) (Some 7)))] (initial_worker 0)) = 97.5"
  using zoom_target_clamped [where es = "[Message env0 (Interaction (Zoom 100000 None)),
       Message env0 (Interaction (Zoom (- 50) (Some 7)))]" and start = 0]
  by (simp add: run_def initial_worker_def Let_def truthy_def)

section \<open>Camera position\<close>

lemma updateCameraPosition_camera:
  assumes "camera w = Some cam"
  shows "camera (updateCameraPosition w) =
     Some (cam\<lparr> camera_position_x := cameraDistance (updateCameraPosition w)
                    * sin (cameraRotation_y (updateCameraPosition w))
                    * cos (cameraRotation_x (updateCameraPosition w)),
                camera_position_y := cameraDistance (updateCameraPosition w)
                    * sin (cameraRotation_x (updateCameraPosition w)),
                camera_position_z := cameraDistance (updateCameraPosition w)
                    * cos (cameraRotation_y (updateCameraPosition w))
                    * cos (cameraRotation_x (updateCameraPosition w)),
                lookAt := Some (0, 0, 0) \<rparr>)"
  using assms by (simp add: updateCameraPosition_def Let_def)

text \<open>
  Claim C9. A frame first damps yaw, pitch and distance and then sets the camera
  position from the damped values: \<open>x = distance * sin(yaw) * cos(pitch)\<close>,
  \<open>y = distance * sin(pitch)\<close>, \<open>z = distance * cos(yaw) * cos(pitch)\<close>, yaw being
  \<open>cameraRotation.y\<close> and pitch \<open>cameraRotation.x\<close>; and it aims the camera at the
  origin (\<open>lookAt(0, 0, 0)\<close>). Nothing later in the frame changes these values.
\<close>

theorem camera_position_spherical:
  assumes "camera w = Some cam"
  shows "camera (animate c w) =
     Some (cam\<lparr> camera_position_x := cameraDistance (animate c w)
                    * sin (cameraRotation_y (animate c w)) * cos (cameraRotation_x (animate c w)),
                camera_position_y := cameraDistance (animate c w)
                    * sin (cameraRotation_x (animate c w)),
                camera_position_z := cameraDistance (animate c w)
                    * cos (cameraRotation_y (animate c w)) * cos (cameraRotation_x (animate c w)),
                lookAt := Some (0, 0, 0) \<rparr>)
    \<and> camera (updateCameraPosition w) = camera (animate c w)
    \<and> cameraDistance (animate c w) = cameraDistance (updateCameraPosition w)
    \<and> cameraRotation_y (animate c w) = cameraRotation_y (updateCameraPosition w)
    \<and> cameraRotation_x (animate c w) = cameraRotation_x (updateCameraPosition w)"
  using updateCameraPosition_camera [OF assms] by (simp only: animate_current simp_thms)

section \<open>Object counts\<close>

lemma createScene_loop_eq:
  "i \<le> n \<Longrightarrow> createScene_loop r (real n) i objs = objs @ map (make_cube r) [i..<n]"
proof (induction "n - i" arbitrary: i objs)
  case 0
  then show ?case by (simp add: createScene_loop.simps)
next
  case (Suc d)
  then have "i < n" and "d = n - Suc i" and "Suc i \<le> n" by simp_all
  then show ?case
    using Suc.hyps(1) [of "Suc i" "objs @ [make_cube r i]"]
    by (subst createScene_loop.simps) (simp add: upt_conv_Cons)
qed

lemma createScene_loop_nonpos:
  "n \<le> 0 \<Longrightarrow> createScene_loop r n 0 [] = []"
  by (subst createScene_loop.simps) simp


lemma record_interaction_delay_objects:
  "objects (record_interaction_delay t w) = objects w"
  by (simp add: record_interaction_delay_def Let_def)

lemma frame_body_objects:
  "objects (frame_body c w) = map update_object (objects w)"
  by (simp add: frame_body_def Let_def record_frame_time_def record_interaction_delay_objects
      updateCameraPosition_def)

lemma animate_objects:
  "objects (animate c w) = map update_object (objects w)"
  by (simp add: animate_def Let_def frame_body_objects emit_stats_def)

lemma updateCameraPosition_scene:
  "scene (updateCameraPosition w) = scene w"
  "objectCount (updateCameraPosition w) = objectCount w"
  by (simp_all add: updateCameraPosition_def Let_def)

lemma animate_scene:
  "scene (animate c w) = scene w"
  "objectCount (animate c w) = objectCount w"
  by (simp_all add: animate_def Let_def frame_body_def record_frame_time_def
      record_interaction_delay_def emit_stats_def updateCameraPosition_scene)

lemma onmessage_Init:
  "fst (onmessage e (Init width height ratio count) w) =
     animate (clk e)
       ((updateCameraPosition
          (w\<lparr> objectCount := (if truthy count then the count else 100),
              scene := Some [],
              camera := Some \<lparr> aspect = (width, height), camera_position_x = 0,
                                camera_position_y = 0, camera_position_z = 0, lookAt = None \<rparr>,
              renderer := Some \<lparr> renderer_size = (width, height), pixelRatio = ratio \<rparr> \<rparr>))
        \<lparr> scene := Some [AmbientLight, DirectionalLight],
          objects := createScene_loop (Math_random e)
                       (if truthy count then the count else 100) 0 [] \<rparr>)"
  by (simp add: Let_def createScene_def updateCameraPosition_scene)

lemma onmessage_Init_objects:
  "objects (fst (onmessage e (Init width height ratio count) w)) =
     map update_object
       (createScene_loop (Math_random e) (if truthy count then the count else 100) 0 [])"
  "scene (fst (onmessage e (Init width height ratio count) w)) =
     Some [AmbientLight, DirectionalLight]"
  "objectCount (fst (onmessage e (Init width height ratio count) w)) =
     (if truthy count then the count else 100)"
  by (simp_all only: onmessage_Init animate_objects animate_scene)
    (simp_all add: updateCameraPosition_scene)

lemma createScene_loop_length_real:
  "length (createScene_loop r v i objs) = length objs + (nat \<lceil>v\<rceil> - i)"
proof (induction r v i objs rule: createScene_loop.induct)
  case (1 r v i objs)
  show ?case
  proof (cases "real i < v")
    case True
    then have "int i < \<lceil>v\<rceil>"
      by linarith
    then have "i < nat \<lceil>v\<rceil>"
      by linarith
    with True 1 show ?thesis
      by (subst createScene_loop.simps) simp
  next
    case False
    then have "\<lceil>v\<rceil> \<le> int i"
      by (simp add: ceiling_le_iff)
    then have "nat \<lceil>v\<rceil> - i = 0"
      by linarith
    with False show ?thesis
      by (subst createScene_loop.simps) simp
  qed
qed

lemma createScene_loop_length:
  "length (createScene_loop r (real n) 0 []) = n"
  by (simp add: createScene_loop_eq)

text \<open>
  Claim C10. On \<open>init\<close>, an absent \<open>objectCount\<close> and the count 0 (the falsy values
  of the model) make the worker build 100 cubes, the fallback of \<open>count || 100\<close>; a
  positive whole count \<open>n\<close> makes it build exactly \<open>n\<close>. In general the loop
  \<open>for (i = 0; i < objectCount; i++)\<close> runs \<open>\<lceil>objectCount\<rceil>\<close> times for a nonzero count
  (not at all for a negative one). The scene then holds the two lights and these
  cubes. The remark of the claim about what the specification leaves out is not a
  property of the program and is not part of the statement.
\<close>

theorem init_object_count:
  "length (objects (fst (onmessage e (Init width height ratio None) w))) = 100
   \<and> length (objects (fst (onmessage e (Init width height ratio (Some 0)) w))) = 100
   \<and> (0 < n \<longrightarrow>
        length (objects (fst (onmessage e (Init width height ratio (Some (real n))) w))) = n)
   \<and> (v \<noteq> 0 \<longrightarrow>
        length (objects (fst (onmessage e (Init width height ratio (Some v)) w))) = nat \<lceil>v\<rceil>)
   \<and> scene (fst (onmessage e (Init width height ratio count) w)) =
        Some [AmbientLight, DirectionalLight]
   \<and> objectCount (fst (onmessage e (Init width height ratio count) w)) =
        (if truthy count then the count else 100)"
proof (intro conjI impI)
  have hundred: "length (createScene_loop (Math_random e) 100 0 []) = 100"
    using createScene_loop_length [of "Math_random e" 100] by simp
  show "length (objects (fst (onmessage e (Init width height ratio None) w))) = 100"
    by (simp add: onmessage_Init_objects truthy_def hundred del: onmessage.simps)
  show "length (objects (fst (onmessage e (Init width height ratio (Some 0)) w))) = 100"
    by (simp add: onmessage_Init_objects truthy_def hundred del: onmessage.simps)
  show "length (objects (fst (onmessage e (Init width height ratio (Some (real n))) w))) = n"
    if "0 < n"
    using that
    by (simp add: onmessage_Init_objects truthy_def createScene_loop_length del: onmessage.simps)
  show "length (objects (fst (onmessage e (Init width height ratio (Some v)) w))) = nat \<lceil>v\<rceil>"
    if "v \<noteq> 0"
    using that
    by (simp add: onmessage_Init_objects truthy_def createScene_loop_length_real
        del: onmessage.simps)
  show "scene (fst (onmessage e (Init width height ratio count) w)) =
        Some [AmbientLight, DirectionalLight]"
    by (rule onmessage_Init_objects)
  show "objectCount (fst (onmessage e (Init width height ratio count) w)) =
        (if truthy count then the count else 100)"
    by (rule onmessage_Init_objects)
qed

theorem init_object_count_witness:
  "(0 :: nat) < 3 \<and> (5 / 2 :: real) \<noteq> 0
   \<and> length (objects (fst (onmessage env0 (Init 800 600 1 (Some (real 3))) (initial_worker 0)))) = 3
   \<and> length (objects (fst (onmessage env0 (Init 800 600 1 (Some (5 / 2))) (initial_worker 0)))) = 3
   \<and> length (objects (fst (onmessage env0 (Init 800 600 1 None) (initial_worker 0)))) = 100"
proof -
  have "nat \<lceil>5 / 2 :: real\<rceil> = 3"
    by (simp add: ceiling_divide_eq_div_numeral)
  then show ?thesis
    using init_object_count [where n = 3 and e = env0 and width = 800 and height = 600
        and ratio = 1 and w = "initial_worker 0" and v = "5 / 2"]
    by simp
qed

section \<open>The camera of a running worker\<close>

lemma run_worker0:
  "run (Message env0 (Init 800 600 1 (Some 1)) # es) (initial_worker 0) = run es worker0"
  by (simp add: run_def worker0_def)

lemma worker0_camera:
  "camera worker0 =
     Some \<lparr> aspect = (800, 600), camera_position_x = 0, camera_position_y = 0,
            camera_position_z = 30, lookAt = Some (0, 0, 0) \<rparr>"
  "cameraRotation_x worker0 = 0" "cameraRotation_y worker0 = 0" "cameraDistance worker0 = 30"
  "cameraRotationTarget_x worker0 = 0" "cameraRotationTarget_y worker0 = 0"
  "cameraDistanceTarget worker0 = 30"
proof -
  have step: "worker0 = fst (onmessage env0 (Init 800 600 1 (Some 1)) (initial_worker 0))"
    by (simp add: worker0_def run_def)
  show "camera worker0 =
     Some \<lparr> aspect = (800, 600), camera_position_x = 0, camera_position_y = 0,
            camera_position_z = 30, lookAt = Some (0, 0, 0) \<rparr>"
    "cameraRotation_x worker0 = 0" "cameraRotation_y worker0 = 0" "cameraDistance worker0 = 30"
    "cameraRotationTarget_x worker0 = 0" "cameraRotationTarget_y worker0 = 0"
    "cameraDistanceTarget worker0 = 30"
    unfolding step onmessage_Init
    by (simp_all add: animate_current animate_targets updateCameraPosition_def Let_def
        initial_worker_def)
qed

lemma sample_zoomed:
  "cameraDistance (run [Message env0 (Init 800 600 1 (Some 1)),
      Message env0 (Interaction (Zoom 400 None))] (initial_worker 0)) = 30"
  "cameraDistanceTarget (run [Message env0 (Init 800 600 1 (Some 1)),
      Message env0 (Interaction (Zoom 400 None))] (initial_worker 0)) = 50"
  unfolding run_worker0 by (simp_all add: run_def Let_def truthy_def worker0_camera)

theorem camera_damping_converges_witness:
  "cameraDistanceTarget (run [Message env0 (Init 800 600 1 (Some 1)),
      Message env0 (Interaction (Zoom 400 None))] (initial_worker 0)) = 50
   \<and> cameraDistance (run [Message env0 (Init 800 600 1 (Some 1)),
      Message env0 (Interaction (Zoom 400 None))] (initial_worker 0)) = 30
   \<and> cameraDistance (animate clock1 (run [Message env0 (Init 800 600 1 (Some 1)),
      Message env0 (Interaction (Zoom 400 None))] (initial_worker 0))) = 31
   \<and> \<bar>31 - 50\<bar> \<le> \<bar>30 - (50 :: real)\<bar>
   \<and> (\<lambda>n. cameraDistance (fold animate (map (\<lambda>k. clock1) [0..<n])
          (run [Message env0 (Init 800 600 1 (Some 1)),
             Message env0 (Interaction (Zoom 400 None))] (initial_worker 0)))) \<longlonglongrightarrow> 50"
  using camera_damping_converges [where c = clock1 and cs = "\<lambda>k. clock1"
      and w = "run [Message env0 (Init 800 600 1 (Some 1)),
        Message env0 (Interaction (Zoom 400 None))] (initial_worker 0)"]
  by (simp add: sample_zoomed dampingFactor_def)

lemma sample_rotated:
  "camera (run [Message env0 (Init 800 600 1 (Some 1)), Message env0 (Interaction (Start None)),
      Message env0 (Interaction (Rotate (- 200) 0))] (initial_worker 0)) =
     Some \<lparr> aspect = (800, 600), camera_position_x = 0, camera_position_y = 0,
            camera_position_z = 30, lookAt = Some (0, 0, 0) \<rparr>"
  "cameraRotation_x (run [Message env0 (Init 800 600 1 (Some 1)),
      Message env0 (Interaction (Start None)),
      Message env0 (Interaction (Rotate (- 200) 0))] (initial_worker 0)) = 0"
  "cameraRotation_y (run [Message env0 (Init 800 600 1 (Some 1)),
      Message env0 (Interaction (Start None)),
      Message env0 (Interaction (Rotate (- 200) 0))] (initial_worker 0)) = 0"
  "cameraDistance (run [Message env0 (Init 800 600 1 (Some 1)),
      Message env0 (Interaction (Start None)),
      Message env0 (Interaction (Rotate (- 200) 0))] (initial_worker 0)) = 30"
  "cameraRotationTarget_x (run [Message env0 (Init 800 600 1 (Some 1)),
      Message env0 (Interaction (Start None)),
      Message env0 (Interaction (Rotate (- 200) 0))] (initial_worker 0)) = 0"
  "cameraRotationTarget_y (run [Message env0 (Init 800 600 1 (Some 1)),
      Message env0 (Interaction (Start None)),
      Message env0 (Interaction (Rotate (- 200) 0))] (initial_worker 0)) = 1"
  "cameraDistanceTarget (run [Message env0 (Init 800 600 1 (Some 1)),
      Message env0 (Interaction (Start None)),
      Message env0 (Interaction (Rotate (- 200) 0))] (initial_worker 0)) = 30"
  unfolding run_worker0
  using Math_PI_pos by (simp_all add: run_def Let_def truthy_def worker0_camera)

theorem camera_position_spherical_witness:
  "camera (run [Message env0 (Init 800 600 1 (Some 1)), Message env0 (Interaction (Start None)),
      Message env0 (Interaction (Rotate (- 200) 0))] (initial_worker 0)) =
     Some \<lparr> aspect = (800, 600), camera_position_x = 0, camera_position_y = 0,
            camera_position_z = 30, lookAt = Some (0, 0, 0) \<rparr>
   \<and> camera (animate clock1 (run [Message env0 (Init 800 600 1 (Some 1)),
        Message env0 (Interaction (Start None)),
        Message env0 (Interaction (Rotate (- 200) 0))] (initial_worker 0))) =
      Some \<lparr> aspect = (800, 600), camera_position_x = 30 * sin (1 / 20),
             camera_position_y = 0, camera_position_z = 30 * cos (1 / 20),
             lookAt = Some (0, 0, 0) \<rparr>"
  using camera_position_spherical [where c = clock1
      and w = "run [Message env0 (Init 800 600 1 (Some 1)),
        Message env0 (Interaction (Start None)),
        Message env0 (Interaction (Rotate (- 200) 0))] (initial_worker 0)"
      and cam = "\<lparr> aspect = (800, 600), camera_position_x = 0, camera_position_y = 0,
            camera_position_z = 30, lookAt = Some (0, 0, 0) \<rparr>"]
  by (simp add: sample_rotated animate_current updateCameraPosition_current dampingFactor_def)

section \<open>Animated objects\<close>

lemma make_cube_ok:
  assumes "random_ok r"
  shows "object_ok (make_cube r i)"
proof -
  have inside: "\<bar>(r k - 0.5) * 50\<bar> \<le> 25" for k
  proof -
    have "0 \<le> r k" and "r k < 1"
      using assms by (simp_all add: random_ok_def)
    then show ?thesis
      by (simp add: abs_le_iff)
  qed
  show ?thesis
    using inside [of "10 * i + 1"] inside [of "10 * i + 2"] inside [of "10 * i + 3"]
    by (simp add: object_ok_def make_cube_def axis_ok_def)
qed

lemma axis_ok_step:
  assumes "axis_ok p v"
  shows "axis_ok (p + v) (if \<bar>p + v\<bar> > 25 then v * (- 1) else v)"
  using assms by (auto simp: axis_ok_def)

lemma update_object_ok: "object_ok obj \<Longrightarrow> object_ok (update_object obj)"
  by (simp add: object_ok_def update_object_def Let_def axis_ok_step)

lemma axis_bounce:
  assumes "axis_ok p v" and "\<bar>p + v\<bar> > 25"
  shows "\<bar>p + v + - v\<bar> < \<bar>p + v\<bar>" and "\<bar>p + v + - v\<bar> \<le> 25"
  using assms by (auto simp: axis_ok_def)

lemma update_object_position:
  "position_x (update_object obj) = position_x obj + velocity_x obj"
  "position_y (update_object obj) = position_y obj + velocity_y obj"
  "position_z (update_object obj) = position_z obj + velocity_z obj"
  by (simp_all add: update_object_def Let_def)

lemma update_object_velocity:
  "velocity_x (update_object obj) =
     (if \<bar>position_x (update_object obj)\<bar> > 25 then - velocity_x obj else velocity_x obj)"
  "velocity_y (update_object obj) =
     (if \<bar>position_y (update_object obj)\<bar> > 25 then - velocity_y obj else velocity_y obj)"
  "velocity_z (update_object obj) =
     (if \<bar>position_z (update_object obj)\<bar> > 25 then - velocity_z obj else velocity_z obj)"
  by (simp_all add: update_object_def Let_def)

lemma update_object_bounce:
  assumes "object_ok obj"
  shows "\<bar>position_x (update_object obj)\<bar> > 25 \<Longrightarrow>
           \<bar>position_x (update_object (update_object obj))\<bar> < \<bar>position_x (update_object obj)\<bar>
           \<and> \<bar>position_x (update_object (update_object obj))\<bar> \<le> 25"
    and "\<bar>position_y (update_object obj)\<bar> > 25 \<Longrightarrow>
           \<bar>position_y (update_object (update_object obj))\<bar> < \<bar>position_y (update_object obj)\<bar>
           \<and> \<bar>position_y (update_object (update_object obj))\<bar> \<le> 25"
    and "\<bar>position_z (update_object obj)\<bar> > 25 \<Longrightarrow>
           \<bar>position_z (update_object (update_object obj))\<bar> < \<bar>position_z (update_object obj)\<bar>
           \<and> \<bar>position_z (update_object (update_object obj))\<bar> \<le> 25"
proof -
  have ok: "axis_ok (position_x obj) (velocity_x obj)" "axis_ok (position_y obj) (velocity_y obj)"
    "axis_ok (position_z obj) (velocity_z obj)"
    using assms by (simp_all add: object_ok_def)
  show "\<bar>position_x (update_object obj)\<bar> > 25 \<Longrightarrow>
           \<bar>position_x (update_object (update_object obj))\<bar> < \<bar>position_x (update_object obj)\<bar>
           \<and> \<bar>position_x (update_object (update_object obj))\<bar> \<le> 25"
    using axis_bounce [OF ok(1)]
    by (simp add: update_object_position update_object_velocity)
  show "\<bar>position_y (update_object obj)\<bar> > 25 \<Longrightarrow>
           \<bar>position_y (update_object (update_object obj))\<bar> < \<bar>position_y (update_object obj)\<bar>
           \<and> \<bar>position_y (update_object (update_object obj))\<bar> \<le> 25"
    using axis_bounce [OF ok(2)]
    by (simp add: update_object_position update_object_velocity)
  show "\<bar>position_z (update_object obj)\<bar> > 25 \<Longrightarrow>
           \<bar>position_z (update_object (update_object obj))\<bar> < \<bar>position_z (update_object obj)\<bar>
           \<and> \<bar>position_z (update_object (update_object obj))\<bar> \<le> 25"
    using axis_bounce [OF ok(3)]
    by (simp add: update_object_position update_object_velocity)
qed

lemma createScene_loop_ok:
  "random_ok r \<Longrightarrow> list_all object_ok objs \<Longrightarrow> list_all object_ok (createScene_loop r n i objs)"
proof (induction r n i objs rule: createScene_loop.induct)
  case (1 r n i objs)
  show ?case
  proof (cases "real i < n")
    case True
    then show ?thesis
      using 1 by (subst createScene_loop.simps) (simp add: make_cube_ok)
  next
    case False
    then show ?thesis
      using 1 by (subst createScene_loop.simps) simp
  qed
qed

lemma map_update_object_ok:
  "list_all object_ok objs \<Longrightarrow> list_all object_ok (map update_object objs)"
  by (induction objs) (simp_all add: update_object_ok)

lemma animate_objects_ok:
  "list_all object_ok (objects w) \<Longrightarrow> list_all object_ok (objects (animate c w))"
  by (simp add: animate_objects map_update_object_ok)

lemma updateCameraPosition_objects:
  "objects (updateCameraPosition w) = objects w"
  by (simp add: updateCameraPosition_def Let_def)

lemma createScene_objects_ok:
  assumes "createScene r w = Inr w'" and "random_ok r"
  shows "list_all object_ok (objects w')"
  using assms by (auto simp: createScene_def createScene_loop_ok split: option.splits)

lemma handleInteraction_objects: "objects (handleInteraction i w) = objects w"
  by (cases i) (simp_all add: Let_def)

lemma onmessage_objects_ok:
  assumes "list_all object_ok (objects w)" and "random_ok (Math_random e)"
  shows "list_all object_ok (objects (fst (onmessage e m w)))"
proof (cases m)
  case (Init width height ratio count)
  then show ?thesis
    using assms(2)
    by (simp add: onmessage_Init_objects map_update_object_ok createScene_loop_ok
        del: onmessage.simps)
next
  case (Resize width height)
  then show ?thesis using assms(1) by (simp add: Let_def split: option.splits)
next
  case (UpdateCount n)
  then show ?thesis
    using assms by (auto simp: Let_def createScene_def createScene_loop_ok
        split: sum.splits option.splits)
next
  case (Interaction i)
  then show ?thesis using assms(1) by (simp add: handleInteraction_objects)
next
  case OtherMessage
  then show ?thesis using assms(1) by simp
qed

lemma worker_step_objects_ok:
  "list_all object_ok (objects w) \<Longrightarrow> event_ok ev \<Longrightarrow> list_all object_ok (objects (worker_step w ev))"
  by (cases ev) (simp_all add: onmessage_objects_ok animate_objects_ok)

lemma run_objects_ok:
  "list_all object_ok (objects w) \<Longrightarrow> events_ok es \<Longrightarrow> list_all object_ok (objects (run es w))"
  unfolding run_def events_ok_def
  by (induction es arbitrary: w) (simp_all add: worker_step_objects_ok)

lemma record_interaction_delay_objectsRef:
  "objectsRef (record_interaction_delay t s) = objectsRef s"
  "currentMode (record_interaction_delay t s) = currentMode s"
  by (simp_all add: record_interaction_delay_def Let_def)

lemma main_animate_objectsRef:
  "objectsRef (main_animate c s) =
     (if currentMode s \<noteq> main then objectsRef s else map update_object (objectsRef s))"
  by (simp add: main_animate_def main_frame_body_def main_emit_stats_def Let_def
      record_frame_time_def record_interaction_delay_objectsRef)

lemma main_animate_objects_ok:
  "list_all object_ok (objectsRef s) \<Longrightarrow> list_all object_ok (objectsRef (main_animate c s))"
  by (simp add: main_animate_objectsRef map_update_object_ok)

lemma fold_main_animate_objects_ok:
  "list_all object_ok (objectsRef s) \<Longrightarrow> list_all object_ok (objectsRef (fold main_animate cs s))"
  by (induction cs arbitrary: s) (simp_all add: main_animate_objects_ok)

lemma main_createScene_ok:
  "random_ok r \<Longrightarrow> list_all object_ok (objectsRef (main_createScene r s))"
  by (simp add: main_createScene_def createScene_loop_ok)


lemma object_ok_bounces_back:
  assumes "object_ok obj"
  shows "bounces_back obj"
  using update_object_bounce [OF assms]
  by (simp add: bounces_back_def axis_bounces_def Let_def update_object_velocity)

lemma list_all_object_ok_member:
  "list_all object_ok objs \<Longrightarrow> obj \<in> set objs \<Longrightarrow> object_ok obj"
  by (simp add: list_all_iff)

lemma initial_objects_ok: "list_all object_ok (objects (initial_worker start))"
  by (simp add: initial_worker_def)

text \<open>
  Claim C4. In the worker and on the main thread (boundary 25 in each) a
  frame applies \<open>update_object\<close> to every object: each position component is advanced
  by its velocity, and a component whose absolute value then exceeds 25 has its
  velocity negated on that same frame. For every object of a scene built by
  \<open>createScene\<close> (from random numbers in \<open>[0, 1)\<close>) and animated since, such a
  component moves back on the next frame: its absolute value decreases, to at most 25.
\<close>

theorem bounce_at_boundary:
  "objects (animate c w) = map update_object (objects w)
   \<and> objectsRef (main_animate c (s\<lparr> currentMode := main \<rparr>)) = map update_object (objectsRef s)
   \<and> position_x (update_object obj) = position_x obj + velocity_x obj
   \<and> position_y (update_object obj) = position_y obj + velocity_y obj
   \<and> position_z (update_object obj) = position_z obj + velocity_z obj
   \<and> velocity_x (update_object obj) =
       (if 25 < \<bar>position_x (update_object obj)\<bar> then - velocity_x obj else velocity_x obj)
   \<and> velocity_y (update_object obj) =
       (if 25 < \<bar>position_y (update_object obj)\<bar> then - velocity_y obj else velocity_y obj)
   \<and> velocity_z (update_object obj) =
       (if 25 < \<bar>position_z (update_object obj)\<bar> then - velocity_z obj else velocity_z obj)
   \<and> (events_ok es \<and> obj \<in> set (objects (run es (initial_worker start))) \<longrightarrow> bounces_back obj)
   \<and> (random_ok r \<and> obj \<in> set (objectsRef (fold main_animate cs (main_createScene r s)))
        \<longrightarrow> bounces_back obj)"
proof (intro conjI impI)
  show "objects (animate c w) = map update_object (objects w)"
    by (rule animate_objects)
  show "objectsRef (main_animate c (s\<lparr> currentMode := main \<rparr>)) = map update_object (objectsRef s)"
    by (simp add: main_animate_objectsRef)
  show "position_x (update_object obj) = position_x obj + velocity_x obj"
    and "position_y (update_object obj) = position_y obj + velocity_y obj"
    and "position_z (update_object obj) = position_z obj + velocity_z obj"
    by (rule update_object_position)+
  show "velocity_x (update_object obj) =
       (if 25 < \<bar>position_x (update_object obj)\<bar> then - velocity_x obj else velocity_x obj)"
    and "velocity_y (update_object obj) =
       (if 25 < \<bar>position_y (update_object obj)\<bar> then - velocity_y obj else velocity_y obj)"
    and "velocity_z (update_object obj) =
       (if 25 < \<bar>position_z (update_object obj)\<bar> then - velocity_z obj else velocity_z obj)"
    by (rule update_object_velocity)+
next
  assume "events_ok es \<and> obj \<in> set (objects (run es (initial_worker start)))"
  then have "object_ok obj"
    using run_objects_ok [OF initial_objects_ok, of es start]
    by (auto dest: list_all_object_ok_member)
  then show "bounces_back obj"
    by (rule object_ok_bounces_back)
next
  assume "random_ok r \<and> obj \<in> set (objectsRef (fold main_animate cs (main_createScene r s)))"
  then have "object_ok obj"
    using fold_main_animate_objects_ok [OF main_createScene_ok, of r cs s]
    by (auto dest: list_all_object_ok_member)
  then show "bounces_back obj"
    by (rule object_ok_bounces_back)
qed

lemma env_random_ok: "random_ok (Math_random env0)" "random_ok (Math_random env1)"
  by (simp_all add: random_ok_def env0_def env1_def)

lemma ev_ok: "events_ok [Message env0 (Init 800 600 1 (Some 1)), Message env1 (UpdateCount 1)]"
  by (simp add: events_ok_def env_random_ok)

lemma onmessage_UpdateCount_objects:
  "scene w \<noteq> None \<Longrightarrow>
     objects (fst (onmessage e (UpdateCount n) w)) = createScene_loop (Math_random e) n 0 []"
  by (auto simp: Let_def createScene_def)

lemma sample_run_objects:
  "objects (run [Message env0 (Init 800 600 1 (Some 1)), Message env1 (UpdateCount 1)]
      (initial_worker 0)) = [make_cube (Math_random env1) 0]"
proof -
  have "createScene_loop (Math_random env1) 1 0 [] = [make_cube (Math_random env1) 0]"
    using createScene_loop_eq [of 0 1 "Math_random env1" "[]"] by simp
  then show ?thesis
    by (simp add: run_def onmessage_UpdateCount_objects onmessage_Init_objects
        del: onmessage.simps)
qed

lemma sample_main_objects:
  "make_cube (Math_random env1) 0 \<in> set (objectsRef (fold main_animate [] (main_createScene (Math_random env1) main0)))"
proof -
  have "createScene_loop (Math_random env1) (real objectCount_main) 0 [] =
      map (make_cube (Math_random env1)) [0..<objectCount_main]"
    by (simp add: createScene_loop_eq)
  moreover have "(0 :: nat) \<in> set [0..<objectCount_main]"
    by (simp add: objectCount_main_def)
  ultimately show ?thesis
    by (simp add: main_createScene_def image_iff del: set_upt) blast
qed

lemma sample_cube:
  "velocity_x (make_cube (Math_random env1) 0) = 0.008"
  "velocity_y (make_cube (Math_random env1) 0) = 0.008"
  "velocity_z (make_cube (Math_random env1) 0) = 0.008"
  "position_x (update_object (make_cube (Math_random env1) 0)) = 25.003"
  "position_y (update_object (make_cube (Math_random env1) 0)) = 25.003"
  "position_z (update_object (make_cube (Math_random env1) 0)) = 25.003"
  "velocity_x (update_object (make_cube (Math_random env1) 0)) = - 0.008"
  "velocity_y (update_object (make_cube (Math_random env1) 0)) = - 0.008"
  "velocity_z (update_object (make_cube (Math_random env1) 0)) = - 0.008"
  "position_x (update_object (update_object (make_cube (Math_random env1) 0))) = 24.995"
  "position_y (update_object (update_object (make_cube (Math_random env1) 0))) = 24.995"
  "position_z (update_object (update_object (make_cube (Math_random env1) 0))) = 24.995"
  by (simp_all add: make_cube_def env1_def update_object_def Let_def)

theorem bounce_at_boundary_witness:
  "events_ok [Message env0 (Init 800 600 1 (Some 1)), Message env1 (UpdateCount 1)]
   \<and> make_cube (Math_random env1) 0 \<in> set (objects
        (run [Message env0 (Init 800 600 1 (Some 1)), Message env1 (UpdateCount 1)]
           (initial_worker 0)))
   \<and> random_ok (Math_random env1)
   \<and> make_cube (Math_random env1) 0 \<in> set (objectsRef
        (fold main_animate [] (main_createScene (Math_random env1) main0)))
   \<and> bounces_back (make_cube (Math_random env1) 0)
   \<and> velocity_x (make_cube (Math_random env1) 0) = 0.008
   \<and> position_x (update_object (make_cube (Math_random env1) 0)) = 25.003
   \<and> velocity_x (update_object (make_cube (Math_random env1) 0)) = - 0.008
   \<and> position_x (update_object (update_object (make_cube (Math_random env1) 0))) = 24.995"
  using bounce_at_boundary [where es = "[Message env0 (Init 800 600 1 (Some 1)),
        Message env1 (UpdateCount 1)]" and start = 0 and r = "Math_random env1" and s = main0
      and cs = "[]" and obj = "make_cube (Math_random env1) 0"]
    ev_ok sample_main_objects env_random_ok(2)
  by (simp only: sample_run_objects sample_cube) simp


section \<open>Statistics\<close>

lemma foldl_plus: "foldl (+) a xs = a + sum_list xs" for a :: real
  by (induction xs arbitrary: a) simp_all

lemma average_sum_list: "average buf = sum_list buf / real (length buf)"
  by (simp add: average_def foldl_plus)

lemma push_bounded_eq:
  "push_bounded cap buf v = (if length buf < cap then buf @ [v] else tl (buf @ [v]))"
  by (auto simp: push_bounded_def Let_def)

lemma push_bounded_length:
  "length buf \<le> cap \<Longrightarrow> length (push_bounded cap buf v) \<le> cap"
  by (auto simp: push_bounded_def Let_def)

lemma updateCameraPosition_perf:
  "lastTime (updateCameraPosition w) = lastTime w"
  "frames (updateCameraPosition w) = frames w"
  "frameTimes (updateCameraPosition w) = frameTimes w"
  "droppedFrames (updateCameraPosition w) = droppedFrames w"
  "maxDelay (updateCameraPosition w) = maxDelay w"
  "lastInteractionTime (updateCameraPosition w) = lastInteractionTime w"
  "interactionDelay (updateCameraPosition w) = interactionDelay w"
  "interactionDelays (updateCameraPosition w) = interactionDelays w"
  "posted (updateCameraPosition w) = posted w"
  "fps (updateCameraPosition w) = fps w"
  by (simp_all add: updateCameraPosition_def Let_def)

lemma frame_body_perf:
  "lastTime (frame_body c w) = lastTime w"
  "frames (frame_body c w) = frames w + 1"
  "frameTimes (frame_body c w) = push_bounded 60 (frameTimes w) (frameTime c)"
  "droppedFrames (frame_body c w) =
     (if over_target c then droppedFrames w + 1 else droppedFrames w)"
  "maxDelay (frame_body c w) = max (maxDelay w) (frameTime c)"
  "interactionDelays (frame_body c w) =
     (if 0 < lastInteractionTime w
      then push_bounded 30 (interactionDelays w) (Date_now c - lastInteractionTime w)
      else interactionDelays w)"
  "interactionDelay (frame_body c w) =
     (if 0 < lastInteractionTime w
      then average (push_bounded 30 (interactionDelays w) (Date_now c - lastInteractionTime w))
      else interactionDelay w)"
  "lastInteractionTime (frame_body c w) =
     (if 0 < lastInteractionTime w then 0 else lastInteractionTime w)"
  "posted (frame_body c w) = posted w"
  "fps (frame_body c w) = fps w"
  by (simp_all add: frame_body_def Let_def record_frame_time_def record_interaction_delay_def
      updateCameraPosition_perf frameTime_def over_target_def)

lemma main_frame_body_perf:
  "lastTime (main_frame_body c s) = lastTime s"
  "frames (main_frame_body c s) = frames s + 1"
  "frameTimes (main_frame_body c s) = push_bounded 60 (frameTimes s) (frameTime c)"
  "droppedFrames (main_frame_body c s) =
     (if over_target c then droppedFrames s + 1 else droppedFrames s)"
  "maxDelay (main_frame_body c s) = max (maxDelay s) (frameTime c)"
  "interactionDelays (main_frame_body c s) =
     (if 0 < lastInteractionTime s
      then push_bounded 30 (interactionDelays s) (Date_now c - lastInteractionTime s)
      else interactionDelays s)"
  "interactionDelay (main_frame_body c s) =
     (if 0 < lastInteractionTime s
      then average (push_bounded 30 (interactionDelays s) (Date_now c - lastInteractionTime s))
      else interactionDelay s)"
  "lastInteractionTime (main_frame_body c s) =
     (if 0 < lastInteractionTime s then 0 else lastInteractionTime s)"
  "stats (main_frame_body c s) = stats s"
  "currentMode (main_frame_body c s) = currentMode s"
  by (simp_all add: main_frame_body_def Let_def record_frame_time_def record_interaction_delay_def
      frameTime_def over_target_def)

lemma emit_stats_perf:
  "lastTime (emit_stats t w) = t"
  "frames (emit_stats t w) = 0"
  "frameTimes (emit_stats t w) = frameTimes w"
  "droppedFrames (emit_stats t w) = 0"
  "maxDelay (emit_stats t w) = 0"
  "interactionDelays (emit_stats t w) = interactionDelays w"
  "interactionDelay (emit_stats t w) = interactionDelay w"
  "lastInteractionTime (emit_stats t w) = lastInteractionTime w"
  "fps (emit_stats t w) = Math_round (real (frames w) * 1000 / (t - lastTime w))"
  "objects (emit_stats t w) = objects w"
  by (simp_all add: emit_stats_def Let_def)

lemma emit_stats_posted:
  "posted (emit_stats t w) = posted w @
     [\<lparr> stats_fps = Math_round (real (frames w) * 1000 / (t - lastTime w)),
        stats_avgFrameTime = toFixed2 (average (frameTimes w)),
        stats_droppedFrames = droppedFrames w,
        stats_maxDelay = toFixed2 (maxDelay w),
        stats_interactionDelay = toFixed2 (interactionDelay w) \<rparr>]"
  by (simp add: emit_stats_def Let_def stats_message_def)

lemma main_emit_stats_perf:
  "lastTime (main_emit_stats t s) = t"
  "frames (main_emit_stats t s) = 0"
  "frameTimes (main_emit_stats t s) = frameTimes s"
  "droppedFrames (main_emit_stats t s) = 0"
  "maxDelay (main_emit_stats t s) = 0"
  "interactionDelays (main_emit_stats t s) = interactionDelays s"
  "interactionDelay (main_emit_stats t s) = interactionDelay s"
  "lastInteractionTime (main_emit_stats t s) = lastInteractionTime s"
  "objectsRef (main_emit_stats t s) = objectsRef s"
  "currentMode (main_emit_stats t s) = currentMode s"
  by (simp_all add: main_emit_stats_def Let_def)

lemma main_emit_stats_stats:
  "stats (main_emit_stats t s) =
     \<lparr> stats_fps = Math_round (real (frames s) * 1000 / (t - lastTime s)),
       stats_avgFrameTime = toFixed2 (average (frameTimes s)),
       stats_droppedFrames = droppedFrames s,
       stats_maxDelay = toFixed2 (maxDelay s),
       stats_interactionDelay = toFixed2 (interactionDelay s) \<rparr>"
  by (simp add: main_emit_stats_def Let_def stats_message_def)

lemma animate_cases:
  "animate c w =
     (if lastTime w + 1000 \<le> now c then emit_stats (now c) (frame_body c w)
      else frame_body c w)"
  by (simp add: animate_def Let_def frame_body_perf)

lemma main_animate_cases:
  "main_animate c s =
     (if currentMode s \<noteq> main then s
      else if lastTime s + 1000 \<le> now c then main_emit_stats (now c) (main_frame_body c s)
      else main_frame_body c s)"
  by (simp add: main_animate_def Let_def main_frame_body_perf)


lemma animate_buffers_ok: "buffers_ok w \<Longrightarrow> buffers_ok (animate c w)"
  by (simp add: buffers_ok_def animate_cases emit_stats_perf frame_body_perf push_bounded_length)

lemma main_animate_buffers_ok: "buffers_ok s \<Longrightarrow> buffers_ok (main_animate c s)"
  by (simp add: buffers_ok_def main_animate_cases main_emit_stats_perf main_frame_body_perf
      push_bounded_length)

lemma handleInteraction_buffers:
  "interactionDelays (handleInteraction i w) = interactionDelays w"
  "frameTimes (handleInteraction i w) = frameTimes w"
  by (cases i; simp add: Let_def)+

lemma onmessage_buffers_ok:
  assumes "buffers_ok w"
  shows "buffers_ok (fst (onmessage e m w))"
proof (cases m)
  case (Init width height ratio count)
  have "buffers_ok ((updateCameraPosition
          (w\<lparr> objectCount := (if truthy count then the count else 100),
              scene := Some [],
              camera := Some \<lparr> aspect = (width, height), camera_position_x = 0,
                                camera_position_y = 0, camera_position_z = 0, lookAt = None \<rparr>,
              renderer := Some \<lparr> renderer_size = (width, height), pixelRatio = ratio \<rparr> \<rparr>))
        \<lparr> scene := Some [AmbientLight, DirectionalLight],
          objects := createScene_loop (Math_random e)
                       (if truthy count then the count else 100) 0 [] \<rparr>)"
    using assms by (simp add: buffers_ok_def updateCameraPosition_perf)
  then show ?thesis
    unfolding Init onmessage_Init by (rule animate_buffers_ok)
next
  case (Resize width height)
  then show ?thesis using assms by (simp add: buffers_ok_def Let_def split: option.splits)
next
  case (UpdateCount n)
  then show ?thesis
    using assms by (auto simp: buffers_ok_def Let_def createScene_def split: option.splits)
next
  case (Interaction i)
  then show ?thesis using assms by (simp add: buffers_ok_def handleInteraction_buffers)
next
  case OtherMessage
  then show ?thesis using assms by simp
qed

lemma worker_step_buffers_ok: "buffers_ok w \<Longrightarrow> buffers_ok (worker_step w ev)"
  by (cases ev) (simp_all add: onmessage_buffers_ok animate_buffers_ok)

lemma run_buffers_ok: "buffers_ok w \<Longrightarrow> buffers_ok (run es w)"
  unfolding run_def by (induction es arbitrary: w) (simp_all add: worker_step_buffers_ok)

lemma initial_buffers_ok: "buffers_ok (initial_worker start)"
  by (simp add: buffers_ok_def initial_worker_def)

lemma animate_interaction:
  "interactionDelays (animate c w) = interactionDelays (frame_body c w)"
  "interactionDelay (animate c w) = interactionDelay (frame_body c w)"
  "lastInteractionTime (animate c w) = lastInteractionTime (frame_body c w)"
  "frameTimes (animate c w) = frameTimes (frame_body c w)"
  by (simp_all add: animate_cases emit_stats_perf)

lemma main_animate_interaction:
  "currentMode s = main \<Longrightarrow> interactionDelays (main_animate c s) = interactionDelays (main_frame_body c s)"
  "currentMode s = main \<Longrightarrow> interactionDelay (main_animate c s) = interactionDelay (main_frame_body c s)"
  "currentMode s = main \<Longrightarrow> lastInteractionTime (main_animate c s) = lastInteractionTime (main_frame_body c s)"
  "currentMode s = main \<Longrightarrow> frameTimes (main_animate c s) = frameTimes (main_frame_body c s)"
  by (simp_all add: main_animate_cases main_emit_stats_perf)

lemma worker0_fields:
  "lastTime worker0 = 0" "frames worker0 = 1" "frameTimes worker0 = [0]"
  "droppedFrames worker0 = 0" "maxDelay worker0 = 0" "lastInteractionTime worker0 = 0"
  "interactionDelay worker0 = 0" "interactionDelays worker0 = []" "posted worker0 = []"
proof -
  have first: "now (clk env0) = 0" "frameTime (clk env0) = 0" "\<not> over_target (clk env0)"
    by (simp_all add: env0_def clock0_def frameTime_def over_target_def TARGET_FRAME_TIME_def)
  have step: "worker0 = fst (onmessage env0 (Init 800 600 1 (Some 1)) (initial_worker 0))"
    by (simp add: worker0_def run_def)
  show "lastTime worker0 = 0" "frames worker0 = 1" "frameTimes worker0 = [0]"
    "droppedFrames worker0 = 0" "maxDelay worker0 = 0" "lastInteractionTime worker0 = 0"
    "interactionDelay worker0 = 0" "interactionDelays worker0 = []" "posted worker0 = []"
    unfolding step onmessage_Init
    by (simp_all add: animate_cases frame_body_perf updateCameraPosition_perf first
        initial_worker_def push_bounded_eq)
qed












section \<open>Statistics windows\<close>


lemma updateCameraPosition_camera_None:
  "camera (updateCameraPosition w) = None \<longleftrightarrow> camera w = None"
  by (simp add: updateCameraPosition_def Let_def)

lemma animate_camera_None: "camera (animate c w) = None \<longleftrightarrow> camera w = None"
  by (simp add: animate_current updateCameraPosition_camera_None)

lemma worker0_setup: "camera worker0 \<noteq> None"
proof -
  have step: "worker0 = fst (onmessage env0 (Init 800 600 1 (Some 1)) (initial_worker 0))"
    by (simp add: worker0_def run_def)
  show ?thesis
    unfolding step onmessage_Init
    by (simp add: animate_camera_None updateCameraPosition_camera_None del: not_None_eq)
qed

lemma handleInteraction_window:
  "lastTime (handleInteraction i w) = lastTime w"
  "droppedFrames (handleInteraction i w) = droppedFrames w"
  "posted (handleInteraction i w) = posted w"
  "camera (handleInteraction i w) = camera w"
  by (cases i; simp add: Let_def)+

lemma animate_no_emit:
  assumes "now c < lastTime w + 1000"
  shows "lastTime (animate c w) = lastTime w"
    and "posted (animate c w) = posted w"
    and "droppedFrames (animate c w) = droppedFrames w + length (filter over_target [c])"
  using assms by (simp_all add: animate_cases frame_body_perf)

lemma worker_step_window:
  assumes "camera w \<noteq> None" and "\<forall>c\<in>set (event_frames ev). now c < lastTime w + 1000"
  shows "camera (worker_step w ev) \<noteq> None
    \<and> lastTime (worker_step w ev) = lastTime w
    \<and> posted (worker_step w ev) = posted w
    \<and> droppedFrames (worker_step w ev) =
        droppedFrames w + length (filter over_target (event_frames ev))"
proof (cases ev)
  case (Frame c)
  then show ?thesis
    using assms by (simp add: animate_camera_None animate_no_emit del: not_None_eq)
next
  case (Message e m)
  show ?thesis
  proof (cases m)
    case (Init width height ratio count)
    let ?w = "(updateCameraPosition
          (w\<lparr> objectCount := (if truthy count then the count else 100),
              scene := Some [],
              camera := Some \<lparr> aspect = (width, height), camera_position_x = 0,
                                camera_position_y = 0, camera_position_z = 0, lookAt = None \<rparr>,
              renderer := Some \<lparr> renderer_size = (width, height), pixelRatio = ratio \<rparr> \<rparr>))
        \<lparr> scene := Some [AmbientLight, DirectionalLight],
          objects := createScene_loop (Math_random e)
                       (if truthy count then the count else 100) 0 [] \<rparr>"
    have step: "worker_step w ev = animate (clk e) ?w"
      unfolding Message Init worker_step.simps onmessage_Init ..
    have same: "lastTime ?w = lastTime w" "posted ?w = posted w"
      "droppedFrames ?w = droppedFrames w" "camera ?w \<noteq> None"
      by (simp_all add: updateCameraPosition_perf updateCameraPosition_camera_None
          del: not_None_eq)
    have "now (clk e) < lastTime ?w + 1000"
      using assms(2) by (simp add: Message Init same)
    have frames_ev: "event_frames ev = [clk e]"
      by (simp add: Message Init)
    from animate_no_emit [OF \<open>now (clk e) < lastTime ?w + 1000\<close>] same show ?thesis
      unfolding step frames_ev by (simp add: animate_camera_None del: not_None_eq)
  next
    case (Resize width height)
    then show ?thesis
      using assms(1) by (auto simp: Message Let_def split: option.splits)
  next
    case (UpdateCount n)
    then show ?thesis
      using assms(1) by (auto simp: Message Let_def createScene_def split: option.splits)
  next
    case (Interaction i)
    then show ?thesis
      using assms(1) by (simp add: Message handleInteraction_window)
  next
    case OtherMessage
    then show ?thesis
      using assms(1) by (simp add: Message)
  qed
qed

lemma run_window:
  assumes "camera w \<noteq> None" and "\<forall>c\<in>set (window_frames es). now c < lastTime w + 1000"
  shows "camera (run es w) \<noteq> None
    \<and> lastTime (run es w) = lastTime w
    \<and> posted (run es w) = posted w
    \<and> droppedFrames (run es w) =
        droppedFrames w + length (filter over_target (window_frames es))"
  using assms
proof (induction es arbitrary: w)
  case Nil
  then show ?case by (simp add: run_def window_frames_def)
next
  case (Cons ev es)
  have first: "\<forall>c\<in>set (event_frames ev). now c < lastTime w + 1000"
    using Cons.prems(2) by (simp add: window_frames_def)
  note step = worker_step_window [OF Cons.prems(1) first]
  have rest: "\<forall>c\<in>set (window_frames es). now c < lastTime (worker_step w ev) + 1000"
    using Cons.prems(2) step by (simp add: window_frames_def)
  have "run (ev # es) w = run es (worker_step w ev)"
    by (simp add: run_def)
  with Cons.IH [of "worker_step w ev"] step rest show ?case
    by (simp add: window_frames_def)
qed

lemma fold_main_animate_window:
  assumes "currentMode s = main" and "\<forall>c\<in>set cs. now c < lastTime s + 1000"
  shows "currentMode (fold main_animate cs s) = main
    \<and> lastTime (fold main_animate cs s) = lastTime s
    \<and> droppedFrames (fold main_animate cs s) = droppedFrames s + length (filter over_target cs)"
  using assms
proof (induction cs arbitrary: s)
  case Nil
  then show ?case by simp
next
  case (Cons c cs)
  have step: "currentMode (main_animate c s) = main" "lastTime (main_animate c s) = lastTime s"
    "droppedFrames (main_animate c s) = droppedFrames s + length (filter over_target [c])"
    using Cons.prems by (simp_all add: main_animate_cases main_frame_body_perf)
  with Cons.IH [of "main_animate c s"] Cons.prems(2) show ?case
    by simp
qed


text \<open>
  Claim C6. A statistics window is the run of frames between two emissions: it starts
  with the dropped-frame counter at 0 (as it is when the worker is loaded and right
  after every emission), its frames before the last end less than 1000 ms after
  \<open>lastTime\<close>, and its last frame ends at least 1000 ms after \<open>lastTime\<close> and emits the
  snapshot. Every frame whose duration is strictly above \<open>TARGET_FRAME_TIME = 1000/60\<close>
  adds one to the counter, so the count the snapshot carries is the number of such
  frames in the window, and the emission puts the counter back to 0. This holds in the
  worker, where messages may arrive between the frames, and in the main-thread loop.
\<close>

theorem dropped_frames_window:
  "TARGET_FRAME_TIME = 1000 / 60
   \<and> over_target c = (1000 / 60 < frameEnd c - frameStart c)
   \<and> droppedFrames (initial_worker start) = 0
   \<and> droppedFrames (emit_stats t v) = 0
   \<and> droppedFrames (frame_body c v) =
       (if over_target c then droppedFrames v + 1 else droppedFrames v)
   \<and> (camera w \<noteq> None \<and> droppedFrames w = 0
        \<and> (\<forall>f\<in>set (window_frames es). now f < lastTime w + 1000)
        \<and> lastTime w + 1000 \<le> now c \<longrightarrow>
          posted (animate c (run es w)) = posted w @ [last (posted (animate c (run es w)))]
          \<and> stats_droppedFrames (last (posted (animate c (run es w)))) =
              length (filter over_target (window_frames es @ [c]))
          \<and> droppedFrames (animate c (run es w)) = 0)
   \<and> (currentMode s = main \<and> droppedFrames s = 0
        \<and> (\<forall>f\<in>set cs. now f < lastTime s + 1000)
        \<and> lastTime s + 1000 \<le> now c \<longrightarrow>
          stats_droppedFrames (stats (main_animate c (fold main_animate cs s))) =
              length (filter over_target (cs @ [c]))
          \<and> droppedFrames (main_animate c (fold main_animate cs s)) = 0)"
proof (intro conjI impI)
  show "TARGET_FRAME_TIME = 1000 / 60"
    by (simp add: TARGET_FRAME_TIME_def)
  show "over_target c = (1000 / 60 < frameEnd c - frameStart c)"
    by (simp add: over_target_def frameTime_def TARGET_FRAME_TIME_def)
  show "droppedFrames (initial_worker start) = 0"
    by (simp add: initial_worker_def)
  show "droppedFrames (emit_stats t v) = 0"
    by (simp add: emit_stats_perf)
  show "droppedFrames (frame_body c v) =
       (if over_target c then droppedFrames v + 1 else droppedFrames v)"
    by (simp add: frame_body_perf)
next
  assume window: "camera w \<noteq> None \<and> droppedFrames w = 0
        \<and> (\<forall>f\<in>set (window_frames es). now f < lastTime w + 1000)
        \<and> lastTime w + 1000 \<le> now c"
  then have before: "lastTime (run es w) = lastTime w" "posted (run es w) = posted w"
    "droppedFrames (run es w) = length (filter over_target (window_frames es))"
    using run_window [of w es] by simp_all
  have emits: "animate c (run es w) = emit_stats (now c) (frame_body c (run es w))"
    using window by (simp add: animate_cases before)
  show "posted (animate c (run es w)) = posted w @ [last (posted (animate c (run es w)))]"
    by (simp add: emits emit_stats_posted frame_body_perf before)
  show "stats_droppedFrames (last (posted (animate c (run es w)))) =
              length (filter over_target (window_frames es @ [c]))"
    by (simp add: emits emit_stats_posted frame_body_perf before)
  show "droppedFrames (animate c (run es w)) = 0"
    by (simp add: emits emit_stats_perf)
next
  assume window: "currentMode s = main \<and> droppedFrames s = 0
        \<and> (\<forall>f\<in>set cs. now f < lastTime s + 1000)
        \<and> lastTime s + 1000 \<le> now c"
  then have before: "currentMode (fold main_animate cs s) = main"
    "lastTime (fold main_animate cs s) = lastTime s"
    "droppedFrames (fold main_animate cs s) = length (filter over_target cs)"
    using fold_main_animate_window [of s cs] by simp_all
  have emits: "main_animate c (fold main_animate cs s) =
      main_emit_stats (now c) (main_frame_body c (fold main_animate cs s))"
    using window by (simp add: main_animate_cases before)
  show "stats_droppedFrames (stats (main_animate c (fold main_animate cs s))) =
              length (filter over_target (cs @ [c]))"
    by (simp add: emits main_emit_stats_stats main_frame_body_perf before)
  show "droppedFrames (main_animate c (fold main_animate cs s)) = 0"
    by (simp add: emits main_emit_stats_perf)
qed

lemma sample_over_target: "over_target clock1" "\<not> over_target clock2" "over_target clock3"
  by (simp_all add: over_target_def frameTime_def TARGET_FRAME_TIME_def clock1_def clock2_def
      clock3_def)

lemma sample_window:
  "window_frames [Frame clock1, Message env0 (Interaction End), Frame clock2] = [clock1, clock2]"
  by (simp add: window_frames_def)

theorem dropped_frames_window_witness:
  "camera worker0 \<noteq> None \<and> droppedFrames worker0 = 0
   \<and> window_frames [Frame clock1, Message env0 (Interaction End), Frame clock2] = [clock1, clock2]
   \<and> now clock1 < lastTime worker0 + 1000 \<and> now clock2 < lastTime worker0 + 1000
   \<and> lastTime worker0 + 1000 \<le> now clock3
   \<and> over_target clock1 \<and> \<not> over_target clock2 \<and> over_target clock3
   \<and> stats_droppedFrames (last (posted (animate clock3
        (run [Frame clock1, Message env0 (Interaction End), Frame clock2] worker0)))) = 2
   \<and> currentMode main0 = main \<and> droppedFrames main0 = 0
   \<and> now clock1 < lastTime main0 + 1000 \<and> now clock2 < lastTime main0 + 1000
   \<and> lastTime main0 + 1000 \<le> now clock3
   \<and> stats_droppedFrames (stats (main_animate clock3
        (fold main_animate [clock1, clock2] main0))) = 2"
proof -
  have times: "now clock1 = 500" "now clock2 = 800" "now clock3 = 1001"
    "lastTime worker0 = 0" "lastTime main0 = 0" "droppedFrames worker0 = 0"
    "droppedFrames main0 = 0" "currentMode main0 = main" "camera worker0 \<noteq> None"
    by (simp_all add: clock1_def clock2_def clock3_def worker0_fields worker0_setup main0_def
        del: not_None_eq)
  show ?thesis
    using dropped_frames_window [where w = worker0 and c = clock3 and s = main0
        and es = "[Frame clock1, Message env0 (Interaction End), Frame clock2]"
        and cs = "[clock1, clock2]"]
    by (simp add: times sample_window sample_over_target del: not_None_eq)
qed

section \<open>Formatted numbers\<close>


lemma digit_is_digit: "d < 10 \<Longrightarrow> is_digit (digit d)"
proof -
  assume "d < 10"
  then have "d \<in> {0, 1, 2, 3, 4, 5, 6, 7, 8, 9}"
    by auto
  then show ?thesis
    by (auto simp: is_digit_def digit_def)
qed

lemma digits_all: "list_all is_digit (digits n)"
proof (induction n rule: digits.induct)
  case (1 n)
  show ?case
  proof (cases "n < 10")
    case True
    then show ?thesis
      by (subst digits.simps) (simp add: digit_is_digit)
  next
    case False
    with 1 show ?thesis
      by (subst digits.simps) (simp add: digit_is_digit)
  qed
qed

lemma digits_nonempty: "digits n \<noteq> []"
  by (subst digits.simps) simp

lemma is_digit_not_minus: "is_digit ch \<Longrightarrow> ch \<noteq> CHR ''-''"
  by (auto simp: is_digit_def)

lemma is_digit_zero: "is_digit CHR ''0''"
  by (simp add: is_digit_def)

lemma unsigned_digits:
  "m \<noteq> [] \<Longrightarrow> list_all is_digit m \<Longrightarrow> unsigned (m @ rest) = m @ rest"
  by (cases m) (auto dest: is_digit_not_minus)

lemma two_decimals_shape:
  assumes "3 \<le> length m" and "list_all is_digit m" and "s = ''-'' \<or> s = []"
  shows "two_decimals (Str (s @ take (length m - 2) m @ ''.'' @ drop (length m - 2) m))"
proof -
  let ?whole = "take (length m - 2) m" and ?frac = "drop (length m - 2) m"
  let ?b = "?whole @ ''.'' @ ?frac"
  have whole: "?whole \<noteq> []" "list_all is_digit ?whole" "length ?whole = length m - 2"
    using assms(1,2) by (auto simp: list_all_iff dest: in_set_takeD)
  have frac: "list_all is_digit ?frac" "length ?frac = 2"
    using assms(1,2) by (auto simp: list_all_iff dest: in_set_dropD)
  have "unsigned (s @ ?b) = ?b"
    using assms(3) unsigned_digits [OF whole(1,2), of "''.'' @ ?frac"] by auto
  moreover have "length ?b = length m + 1"
    using assms(1) by simp
  moreover have "take (length m + 1 - 3) ?b = ?whole"
    using assms(1) by simp
  moreover have "?b ! (length m + 1 - 3) = CHR ''.''"
    using assms(1) by (simp add: nth_append)
  moreover have "drop (length m + 1 - 2) ?b = ?frac"
    using assms(1) by simp
  ultimately show ?thesis
    using whole frac assms(1) by (simp add: Let_def)
qed

lemma toFixed2_two_decimals:
  assumes "\<bar>v\<bar> < 10 ^ 21"
  shows "two_decimals (toFixed2 v)"
proof -
  define a where "a = (if v < 0 then - v else v)"
  define n where "n = nat \<lfloor>a * 100 + 1 / 2\<rfloor>"
  define m where "m = (if length (digits n) \<le> 2
      then replicate (3 - length (digits n)) CHR ''0'' @ digits n else digits n)"
  define s where "s = (if v < 0 then ''-'' else [])"
  have small: "\<not> a \<ge> 10 ^ 21"
    using assms unfolding a_def by (cases "v < 0") simp_all
  have eq: "toFixed2 v = Str (s @ take (length m - 2) m @ ''.'' @ drop (length m - 2) m)"
    using small by (simp add: toFixed2_def Let_def a_def [symmetric] n_def [symmetric]
        m_def [symmetric] s_def [symmetric])
  have "3 \<le> length m"
    by (simp add: m_def)
  moreover have "list_all is_digit m"
    using digits_all [of n] by (simp add: m_def list_all_iff is_digit_zero)
  moreover have "s = ''-'' \<or> s = []"
    by (simp add: s_def)
  ultimately show ?thesis
    unfolding eq by (rule two_decimals_shape)
qed

section \<open>Snapshots\<close>

lemma Math_round_near: "\<bar>real_of_int (Math_round v) - v\<bar> \<le> 1 / 2"
  unfolding Math_round_def by linarith

lemma worker2_setup: "camera worker2 \<noteq> None"
  by (simp add: worker2_def run_def worker0_setup animate_camera_None del: not_None_eq)

lemma worker2_fields:
  "frames worker2 = 3" "lastTime worker2 = 0" "frameTimes worker2 = [0, 20, 5]"
  "droppedFrames worker2 = 1" "maxDelay worker2 = 20" "interactionDelay worker2 = 0"
  "interactionDelays worker2 = []" "lastInteractionTime worker2 = 0" "posted worker2 = []"
  by (simp_all add: worker2_def run_def worker0_setup worker0_fields animate_cases
      frame_body_perf frame_body_current updateCameraPosition_camera_None clock1_def clock2_def
      animate_camera_None push_bounded_eq frameTime_def
      over_target_def TARGET_FRAME_TIME_def del: not_None_eq)

lemma sample_run:
  "run [Message env0 (Init 800 600 1 (Some 1)), Frame clock1, Frame clock2, Frame clock3]
     (initial_worker 0) = animate clock3 worker2"
proof -
  have "run [Frame clock1, Frame clock2, Frame clock3] worker0 =
      worker_step (run [Frame clock1, Frame clock2] worker0) (Frame clock3)"
    by (simp add: run_def)
  then show ?thesis
    unfolding run_worker0 using worker2_setup by (simp add: worker2_def del: not_None_eq)
qed

lemma sample_snapshot:
  "posted (animate clock3 worker2) =
     [\<lparr> stats_fps = 4, stats_avgFrameTime = Str ''10.50'', stats_droppedFrames = 2,
        stats_maxDelay = Str ''20.00'', stats_interactionDelay = Str ''0.00'' \<rparr>]"
proof -
  have strings: "toFixed2 (21 / 2) = Str ''10.50''" "toFixed2 20 = Str ''20.00''"
    "toFixed2 0 = Str ''0.00''"
    by (simp_all add: toFixed2_def Let_def digits.simps digit_def)
  have frame: "lastTime worker2 + 1000 \<le> now clock3" "frameTime clock3 = 17"
    "over_target clock3" "now clock3 = 1001"
    by (simp_all add: worker2_fields clock3_def frameTime_def over_target_def
        TARGET_FRAME_TIME_def)
  have mean: "average (push_bounded 60 [0, 20, 5] 17) = 21 / 2"
    by (simp add: average_def push_bounded_eq)
  show ?thesis
    using frame(1)
    by (simp add: animate_cases emit_stats_posted frame_body_perf worker2_fields frame(2-4)
        Math_round_def mean strings)
qed

text \<open>
  Claim C7, as amended. A frame that ends at least 1000 ms after \<open>lastTime\<close> posts one
  snapshot. Its \<open>fps\<close> is \<open>frames * 1000 / (now - lastTime)\<close> emitted as an integer:
  \<open>Math.round\<close> of the quotient, \<open>frames\<close> counting the frames of the window with the
  current one. \<open>droppedFrames\<close> is posted as a number, the counter itself.
  \<open>avgFrameTime\<close>, \<open>maxDelay\<close> and \<open>interactionDelay\<close> are posted as strings, the
  results of \<open>toFixed(2)\<close> for the mean of the frame-time buffer, the maximal frame
  time of the window and the reported interaction delay; such a string has two
  decimals (for every magnitude below \<open>10^21\<close>, beyond any measured time). The frame
  counter is 0 after the frame.
\<close>

theorem snapshot_fields:
  "(lastTime w + 1000 \<le> now c \<longrightarrow>
      posted (animate c w) = posted w @ [last (posted (animate c w))]
      \<and> stats_fps (last (posted (animate c w))) =
          \<lfloor>real (frames w + 1) * 1000 / (now c - lastTime w) + 1 / 2\<rfloor>
      \<and> \<bar>real_of_int (stats_fps (last (posted (animate c w))))
           - real (frames w + 1) * 1000 / (now c - lastTime w)\<bar> \<le> 1 / 2
      \<and> fps (animate c w) = stats_fps (last (posted (animate c w)))
      \<and> stats_avgFrameTime (last (posted (animate c w))) =
          toFixed2 (sum_list (frameTimes (animate c w)) / real (length (frameTimes (animate c w))))
      \<and> stats_droppedFrames (last (posted (animate c w))) =
          (if over_target c then droppedFrames w + 1 else droppedFrames w)
      \<and> stats_maxDelay (last (posted (animate c w))) = toFixed2 (max (maxDelay w) (frameTime c))
      \<and> stats_interactionDelay (last (posted (animate c w))) =
          toFixed2 (interactionDelay (animate c w))
      \<and> frames (animate c w) = 0)
   \<and> map_of (stats_object m) ''fps'' = Some (JSNumber (real_of_int (stats_fps m)))
   \<and> map_of (stats_object m) ''droppedFrames'' = Some (JSNumber (real (stats_droppedFrames m)))
   \<and> map_of (stats_object m) ''avgFrameTime'' = Some (JSString (stats_avgFrameTime m))
   \<and> map_of (stats_object m) ''maxDelay'' = Some (JSString (stats_maxDelay m))
   \<and> map_of (stats_object m) ''interactionDelay'' = Some (JSString (stats_interactionDelay m))
   \<and> (\<bar>v\<bar> < 10 ^ 21 \<longrightarrow> two_decimal_string (JSString (toFixed2 v)))"
proof (intro conjI impI)
  assume "\<bar>v\<bar> < 10 ^ 21"
  then show "two_decimal_string (JSString (toFixed2 v))"
    by (simp add: toFixed2_two_decimals)
next
  show "map_of (stats_object m) ''fps'' = Some (JSNumber (real_of_int (stats_fps m)))"
    and "map_of (stats_object m) ''droppedFrames'' =
      Some (JSNumber (real (stats_droppedFrames m)))"
    and "map_of (stats_object m) ''avgFrameTime'' = Some (JSString (stats_avgFrameTime m))"
    and "map_of (stats_object m) ''maxDelay'' = Some (JSString (stats_maxDelay m))"
    and "map_of (stats_object m) ''interactionDelay'' =
      Some (JSString (stats_interactionDelay m))"
    by (simp_all add: stats_object_def)
next
  assume late: "lastTime w + 1000 \<le> now c"
  then have emits: "animate c w = emit_stats (now c) (frame_body c w)"
    by (simp add: animate_cases)
  show "posted (animate c w) = posted w @ [last (posted (animate c w))]"
    by (simp add: emits emit_stats_posted frame_body_perf)
  show fps_eq: "stats_fps (last (posted (animate c w))) =
          \<lfloor>real (frames w + 1) * 1000 / (now c - lastTime w) + 1 / 2\<rfloor>"
    by (simp add: emits emit_stats_posted frame_body_perf Math_round_def)
  show "\<bar>real_of_int (stats_fps (last (posted (animate c w))))
           - real (frames w + 1) * 1000 / (now c - lastTime w)\<bar> \<le> 1 / 2"
    unfolding fps_eq by linarith
  show "fps (animate c w) = stats_fps (last (posted (animate c w)))"
    by (simp add: emits emit_stats_posted emit_stats_perf)
  show "stats_avgFrameTime (last (posted (animate c w))) =
          toFixed2 (sum_list (frameTimes (animate c w)) / real (length (frameTimes (animate c w))))"
    by (simp add: emits emit_stats_posted emit_stats_perf average_sum_list)
  show "stats_droppedFrames (last (posted (animate c w))) =
          (if over_target c then droppedFrames w + 1 else droppedFrames w)"
    by (simp add: emits emit_stats_posted frame_body_perf)
  show "stats_maxDelay (last (posted (animate c w))) = toFixed2 (max (maxDelay w) (frameTime c))"
    by (simp add: emits emit_stats_posted frame_body_perf)
  show "stats_interactionDelay (last (posted (animate c w))) =
          toFixed2 (interactionDelay (animate c w))"
    by (simp add: emits emit_stats_posted emit_stats_perf)
  show "frames (animate c w) = 0"
    by (simp add: emits emit_stats_perf)
qed

text \<open>
  The claim as written has every numeric field other than \<open>fps\<close> posted as a string
  with two decimals. The worker that has processed \<open>init\<close> and run three more frames,
  two of them over the target, has posted one snapshot, and its \<open>droppedFrames\<close> is
  the number 2, not a string.
\<close>

theorem snapshot_fields_counterexample:
  "posted (run [Message env0 (Init 800 600 1 (Some 1)), Frame clock1, Frame clock2,
       Frame clock3] (initial_worker 0)) =
     [\<lparr> stats_fps = 4, stats_avgFrameTime = Str ''10.50'', stats_droppedFrames = 2,
        stats_maxDelay = Str ''20.00'', stats_interactionDelay = Str ''0.00'' \<rparr>]
   \<and> map_of (stats_object (last (posted (run [Message env0 (Init 800 600 1 (Some 1)),
         Frame clock1, Frame clock2, Frame clock3] (initial_worker 0))))) ''droppedFrames'' =
       Some (JSNumber 2)
   \<and> \<not> two_decimal_string (JSNumber 2)"
  by (simp add: sample_run sample_snapshot stats_object_def)

theorem snapshot_fields_witness:
  "lastTime worker2 + 1000 \<le> now clock3
   \<and> \<bar>21 / 2 :: real\<bar> < 10 ^ 21
   \<and> posted (animate clock3 worker2) =
       [\<lparr> stats_fps = 4, stats_avgFrameTime = Str ''10.50'', stats_droppedFrames = 2,
          stats_maxDelay = Str ''20.00'', stats_interactionDelay = Str ''0.00'' \<rparr>]
   \<and> frames (animate clock3 worker2) = 0
   \<and> map_of (stats_object (last (posted (animate clock3 worker2)))) ''avgFrameTime'' =
       Some (JSString (Str ''10.50''))
   \<and> two_decimal_string (JSString (toFixed2 (21 / 2)))"
proof -
  have late: "lastTime worker2 + 1000 \<le> now clock3"
    by (simp add: worker2_fields clock3_def)
  show ?thesis
    using snapshot_fields [where w = worker2 and c = clock3 and v = "21 / 2"
        and m = "last (posted (animate clock3 worker2))"] late sample_snapshot
    by (simp add: stats_object_def)
qed

text \<open>
  Claim C8. The emission of a snapshot sets the frame counter, the dropped-frame
  counter and the max-delay tracker to 0 and \<open>lastTime\<close> to the current time; besides
  the reported \<open>fps\<close> and the snapshot itself it changes nothing else. In particular
  the interaction-delay buffer and the frame-time buffer are the same after the
  emission as before it. The frame-time buffer receives the duration of every frame,
  its oldest entry being dropped when that makes more than 60, whether or not the frame
  emits, and never holds more than 60 entries. This holds in the worker and in the
  main-thread loop.
\<close>

theorem emission_resets_counters:
  "frames (emit_stats t w) = 0 \<and> droppedFrames (emit_stats t w) = 0
   \<and> maxDelay (emit_stats t w) = 0
   \<and> interactionDelays (emit_stats t w) = interactionDelays w
   \<and> frameTimes (emit_stats t w) = frameTimes w
   \<and> emit_stats t w =
       w\<lparr> fps := fps (emit_stats t w), frames := 0, lastTime := t,
          posted := posted (emit_stats t w), droppedFrames := 0, maxDelay := 0 \<rparr>
   \<and> (lastTime w + 1000 \<le> now c \<longrightarrow> animate c w = emit_stats (now c) (frame_body c w))
   \<and> frameTimes (animate c w) =
       (if length (frameTimes w) < 60 then frameTimes w @ [frameTime c]
        else tl (frameTimes w @ [frameTime c]))
   \<and> interactionDelays (animate c w) = interactionDelays (frame_body c w)
   \<and> length (frameTimes (run es (initial_worker start))) \<le> 60
   \<and> frames (main_emit_stats t s) = 0 \<and> droppedFrames (main_emit_stats t s) = 0
   \<and> maxDelay (main_emit_stats t s) = 0
   \<and> interactionDelays (main_emit_stats t s) = interactionDelays s
   \<and> frameTimes (main_emit_stats t s) = frameTimes s
   \<and> main_emit_stats t s =
       s\<lparr> frames := 0, lastTime := t, stats := stats (main_emit_stats t s),
          droppedFrames := 0, maxDelay := 0 \<rparr>
   \<and> (currentMode s = main \<and> lastTime s + 1000 \<le> now c \<longrightarrow>
        main_animate c s = main_emit_stats (now c) (main_frame_body c s)
        \<and> frameTimes (main_animate c s) =
            (if length (frameTimes s) < 60 then frameTimes s @ [frameTime c]
             else tl (frameTimes s @ [frameTime c]))
        \<and> interactionDelays (main_animate c s) = interactionDelays (main_frame_body c s))
   \<and> (length (frameTimes s) \<le> 60 \<longrightarrow> length (frameTimes (main_animate c s)) \<le> 60)
   \<and> frameTimes (fresh_perf t) = []"
proof (intro conjI impI)
  show "frames (emit_stats t w) = 0" and "droppedFrames (emit_stats t w) = 0"
    and "maxDelay (emit_stats t w) = 0"
    and "interactionDelays (emit_stats t w) = interactionDelays w"
    and "frameTimes (emit_stats t w) = frameTimes w"
    by (simp_all add: emit_stats_perf)
  show "emit_stats t w =
       w\<lparr> fps := fps (emit_stats t w), frames := 0, lastTime := t,
          posted := posted (emit_stats t w), droppedFrames := 0, maxDelay := 0 \<rparr>"
    by (simp add: emit_stats_def Let_def)
  show "frameTimes (animate c w) =
       (if length (frameTimes w) < 60 then frameTimes w @ [frameTime c]
        else tl (frameTimes w @ [frameTime c]))"
    by (simp add: animate_interaction frame_body_perf push_bounded_eq)
  show "interactionDelays (animate c w) = interactionDelays (frame_body c w)"
    by (rule animate_interaction)
  show "length (frameTimes (run es (initial_worker start))) \<le> 60"
    using run_buffers_ok [OF initial_buffers_ok, of es start] by (simp add: buffers_ok_def)
  show "frames (main_emit_stats t s) = 0" and "droppedFrames (main_emit_stats t s) = 0"
    and "maxDelay (main_emit_stats t s) = 0"
    and "interactionDelays (main_emit_stats t s) = interactionDelays s"
    and "frameTimes (main_emit_stats t s) = frameTimes s"
    by (simp_all add: main_emit_stats_perf)
  show "main_emit_stats t s =
       s\<lparr> frames := 0, lastTime := t, stats := stats (main_emit_stats t s),
          droppedFrames := 0, maxDelay := 0 \<rparr>"
    by (simp add: main_emit_stats_def Let_def)
  show "frameTimes (fresh_perf t) = []"
    by (simp add: fresh_perf_def)
next
  assume "lastTime w + 1000 \<le> now c"
  then show "animate c w = emit_stats (now c) (frame_body c w)"
    by (simp add: animate_cases)
next
  assume emits: "currentMode s = main \<and> lastTime s + 1000 \<le> now c"
  then show "main_animate c s = main_emit_stats (now c) (main_frame_body c s)"
    by (simp add: main_animate_cases)
  from emits show "frameTimes (main_animate c s) =
            (if length (frameTimes s) < 60 then frameTimes s @ [frameTime c]
             else tl (frameTimes s @ [frameTime c]))"
    by (simp add: main_animate_interaction main_frame_body_perf push_bounded_eq)
  from emits show "interactionDelays (main_animate c s) = interactionDelays (main_frame_body c s)"
    by (simp add: main_animate_interaction)
next
  assume "length (frameTimes s) \<le> 60"
  then show "length (frameTimes (main_animate c s)) \<le> 60"
    by (simp add: main_animate_cases main_emit_stats_perf main_frame_body_perf push_bounded_length)
qed

theorem emission_resets_counters_witness:
  "lastTime worker2 + 1000 \<le> now clock3
   \<and> frames (animate clock3 worker2) = 0
   \<and> droppedFrames (animate clock3 worker2) = 0
   \<and> maxDelay (animate clock3 worker2) = 0
   \<and> frameTimes (animate clock3 worker2) = [0, 20, 5, 17]
   \<and> interactionDelays (animate clock3 worker2) = []
   \<and> currentMode main0 = main \<and> lastTime main0 + 1000 \<le> now clock3
   \<and> length (frameTimes main0) \<le> 60
   \<and> frames (main_animate clock3 main0) = 0
   \<and> frameTimes (main_animate clock3 main0) = [17]"
proof -
  have frame: "lastTime worker2 + 1000 \<le> now clock3" "frameTime clock3 = 17"
    "currentMode main0 = main" "lastTime main0 + 1000 \<le> now clock3" "frameTimes main0 = []"
    "now clock3 = 1001" "lastTime main0 = 0"
    by (simp_all add: worker2_fields clock3_def frameTime_def main0_def)
  show ?thesis
    using emission_resets_counters [where w = worker2 and c = clock3 and s = main0
        and t = "now clock3"]
      emission_resets_counters [where w = "frame_body clock3 worker2" and t = "now clock3"
        and s = "main_frame_body clock3 main0"]
    by (simp add: frame worker2_fields frame_body_perf main_frame_body_perf push_bounded_eq)
qed

end
